theory Spec2Isabelle
  imports Complex_Main
begin

section \<open>Python values and exceptions\<close>

text \<open>
  Exceptions of the Python sources are values. \<open>ConversionError\<close> stands for the
  \<open>ValueError\<close> or \<open>TypeError\<close> that the built-ins \<open>int()\<close> and \<open>float()\<close> raise on a
  value they cannot convert.
\<close>

datatype py_error =
    AssertionError
  | TypeError
  | ValueError
  | KeyError
  | IndexError
  | AttributeError
  | RuntimeError
  | ConversionError
  | OutOfBoundsDatetime

text \<open>
  The subscript \<open>xs[i]\<close> of a Python list: positions \<open>0 .. len - 1\<close> from the front,
  \<open>-1 .. -len\<close> from the back, \<open>IndexError\<close> elsewhere.
\<close>

definition py_get :: "'a list \<Rightarrow> int \<Rightarrow> py_error + 'a" where
  "py_get xs i =
     (if 0 \<le> i \<and> i < int (length xs) then Inr (xs ! nat i)
      else if i < 0 \<and> - int (length xs) \<le> i then Inr (xs ! nat (int (length xs) + i))
      else Inl IndexError)"

section \<open>Buda: trade entries and the trade list (src/Buda/BudaIntegrationConfig.py)\<close>

text \<open>
  Floating point numbers are kept abstract: the type \<open>'f\<close> stands for the non-NaN floats,
  a missing value (pandas' NaN) is \<open>None\<close>. The wire values of an entry have type \<open>'v\<close>;
  the built-ins \<open>int()\<close> and \<open>float()\<close> are the parameters \<open>to_int\<close> and \<open>to_float\<close>,
  \<open>None\<close> where they raise.
\<close>

record ('f, 'v) BudaMarketTradeEntry =
  timestamp :: int
  amount :: 'f
  price :: 'f
  direction :: 'v

text \<open>\<open>BudaMarketTradeEntry.__init__\<close>: indices 0 to 3 of the entry, converted in this order.\<close>

definition BudaMarketTradeEntry_init ::
  "('v \<Rightarrow> int option) \<Rightarrow> ('v \<Rightarrow> 'f option) \<Rightarrow> 'v list
     \<Rightarrow> py_error + ('f, 'v) BudaMarketTradeEntry" where
  "BudaMarketTradeEntry_init to_int to_float entry =
     (case py_get entry 0 of Inl e \<Rightarrow> Inl e | Inr v0 \<Rightarrow>
     (case to_int v0 of None \<Rightarrow> Inl ConversionError | Some ts \<Rightarrow>
     (case py_get entry 1 of Inl e \<Rightarrow> Inl e | Inr v1 \<Rightarrow>
     (case to_float v1 of None \<Rightarrow> Inl ConversionError | Some am \<Rightarrow>
     (case py_get entry 2 of Inl e \<Rightarrow> Inl e | Inr v2 \<Rightarrow>
     (case to_float v2 of None \<Rightarrow> Inl ConversionError | Some pr \<Rightarrow>
     (case py_get entry 3 of Inl e \<Rightarrow> Inl e | Inr v3 \<Rightarrow>
        Inr \<lparr>timestamp = ts, amount = am, price = pr, direction = v3\<rparr>)))))))"

text \<open>
  A row of an OHLCV data frame: the index \<open>date\<close> (epoch milliseconds, a datetime that
  pandas keeps within its range) and five columns.
\<close>

record 'f candle =
  date :: int
  c_open :: "'f option"
  c_high :: "'f option"
  c_low :: "'f option"
  c_close :: "'f option"
  c_volume :: "'f option"

text \<open>
  The attribute \<open>trade_list\<close> holds a Python list (Raw mode) or a pandas DataFrame
  (Aggregated mode).
\<close>

datatype ('f, 'v) store =
    RawList "('f, 'v) BudaMarketTradeEntry list"
  | DataFrame "'f candle list"

record ('f, 'v) BudaMarketTradeList =
  trade_list :: "('f, 'v) store"
  filter_timestamp :: "int option"

text \<open>The argument \<open>existing_entries\<close> of the constructor: any Python object.\<close>

datatype ('f, 'v) existing =
    ExNone
  | ExList "('f, 'v) BudaMarketTradeEntry list"
  | ExFrame "'f candle list"
  | ExOther

definition BudaMarketTradeList_init ::
  "('f, 'v) existing \<Rightarrow> int option \<Rightarrow> py_error + ('f, 'v) BudaMarketTradeList" where
  "BudaMarketTradeList_init existing_entries ft =
     (case existing_entries of
        ExNone \<Rightarrow> Inr \<lparr>trade_list = RawList [], filter_timestamp = ft\<rparr>
      | ExList l \<Rightarrow> Inr \<lparr>trade_list = RawList l, filter_timestamp = ft\<rparr>
      | ExFrame d \<Rightarrow> Inr \<lparr>trade_list = DataFrame d, filter_timestamp = ft\<rparr>
      | ExOther \<Rightarrow> Inl AssertionError)"

definition is_resampled :: "('f, 'v) BudaMarketTradeList \<Rightarrow> bool" where
  "is_resampled s = (case trade_list s of DataFrame _ \<Rightarrow> True | RawList _ \<Rightarrow> False)"

text \<open>
  The loop of \<open>append_raw\<close>: each entry is converted and appended in place; an entry that
  does not convert raises, and the entries before it stay appended.
\<close>

fun append_entries ::
  "('v \<Rightarrow> int option) \<Rightarrow> ('v \<Rightarrow> 'f option) \<Rightarrow> 'v list list
     \<Rightarrow> ('f, 'v) BudaMarketTradeEntry list
     \<Rightarrow> ('f, 'v) BudaMarketTradeEntry list \<times> py_error option" where
  "append_entries to_int to_float [] acc = (acc, None)"
| "append_entries to_int to_float (entry # rest) acc =
     (case BudaMarketTradeEntry_init to_int to_float entry of
        Inl e \<Rightarrow> (acc, Some e)
      | Inr t \<Rightarrow> append_entries to_int to_float rest (acc @ [t]))"

text \<open>\<open>append_raw\<close> returns the instance after the call and the exception raised, if any.\<close>

definition append_raw ::
  "('v \<Rightarrow> int option) \<Rightarrow> ('v \<Rightarrow> 'f option) \<Rightarrow> ('f, 'v) BudaMarketTradeList
     \<Rightarrow> 'v list list \<Rightarrow> ('f, 'v) BudaMarketTradeList \<times> py_error option" where
  "append_raw to_int to_float s new_entries =
     (case trade_list s of
        DataFrame _ \<Rightarrow> (s, Some AssertionError)
      | RawList l \<Rightarrow>
          (case append_entries to_int to_float new_entries l of
             (l', err) \<Rightarrow> (s\<lparr>trade_list := RawList l'\<rparr>, err)))"

section \<open>Decoded JSON (the results of \<open>json.loads\<close>)\<close>

datatype 'f json =
    JNull
  | JBool bool
  | JInt int
  | JFloat 'f
  | JStr string
  | JArr "'f json list"
  | JObj "(string \<times> 'f json) list"

text \<open>\<open>isinstance(x, list)\<close>.\<close>

fun is_list :: "'f json \<Rightarrow> bool" where
  "is_list (JArr _) = True"
| "is_list _ = False"

text \<open>
  The subscripts \<open>x[i]\<close> with an integer and \<open>x[k]\<close> with a string: a list and a string
  take an integer, a dict takes a key, anything else raises \<open>TypeError\<close>.
\<close>

fun py_index :: "'f json \<Rightarrow> int \<Rightarrow> py_error + 'f json" where
  "py_index (JArr xs) i = py_get xs i"
| "py_index (JStr cs) i = (case py_get cs i of Inl e \<Rightarrow> Inl e | Inr c \<Rightarrow> Inr (JStr [c]))"
| "py_index (JObj kvs) i = Inl KeyError"
| "py_index _ i = Inl TypeError"

fun py_key :: "'f json \<Rightarrow> string \<Rightarrow> py_error + 'f json" where
  "py_key (JObj kvs) k = (case map_of kvs k of None \<Rightarrow> Inl KeyError | Some v \<Rightarrow> Inr v)"
| "py_key _ k = Inl TypeError"

text \<open>The elements a \<open>for\<close> loop runs over.\<close>

fun py_iter :: "'f json \<Rightarrow> py_error + 'f json list" where
  "py_iter (JArr xs) = Inr xs"
| "py_iter (JStr cs) = Inr (map (\<lambda>c. JStr [c]) cs)"
| "py_iter (JObj kvs) = Inr (map (\<lambda>kv. JStr (fst kv)) kvs)"
| "py_iter _ = Inl TypeError"

text \<open>Python's order on strings, by code point.\<close>

fun str_lt :: "string \<Rightarrow> string \<Rightarrow> bool" where
  "str_lt [] [] = False"
| "str_lt [] (y # ys) = True"
| "str_lt (x # xs) [] = False"
| "str_lt (x # xs) (y # ys) =
     ((of_char x :: nat) < of_char y \<or> (x = y \<and> str_lt xs ys))"

text \<open>
  The comparisons \<open>a == b\<close> and \<open>a < b\<close> of Python on decoded values.
  \<^item> Numbers (\<open>int\<close>, \<open>bool\<close> as 0 and 1, \<open>float\<close>) compare by value. Two integers are
    compared as integers; a pair with a float is compared by the parameter \<open>num_lt\<close>,
    Python's exact \<open><\<close> between numbers. Floats are not NaN, so two numbers are equal
    when neither is less than the other.
  \<^item> Strings compare by code point, lists element by element: \<open><\<close> looks for the first
    position where the elements are not equal and compares them there, or else the
    lengths.
  \<^item> \<open>==\<close> never raises; dicts are equal when they have the same keys with equal values.
  \<^item> \<open><\<close> raises \<open>TypeError\<close> on \<open>None\<close>, on dicts and on two values of different kinds.
\<close>

fun as_number :: "'f json \<Rightarrow> (int + 'f) option" where
  "as_number (JInt i) = Some (Inl i)"
| "as_number (JBool b) = Some (Inl (if b then 1 else 0))"
| "as_number (JFloat x) = Some (Inr x)"
| "as_number _ = None"

definition number_lt :: "(int + 'f \<Rightarrow> int + 'f \<Rightarrow> bool) \<Rightarrow> int + 'f \<Rightarrow> int + 'f \<Rightarrow> bool" where
  "number_lt num_lt x y =
     (case (x, y) of (Inl i, Inl j) \<Rightarrow> i < j | _ \<Rightarrow> num_lt x y)"

fun py_eq :: "(int + 'f \<Rightarrow> int + 'f \<Rightarrow> bool) \<Rightarrow> 'f json \<Rightarrow> 'f json \<Rightarrow> bool"
  and py_eq_list :: "(int + 'f \<Rightarrow> int + 'f \<Rightarrow> bool) \<Rightarrow> 'f json list \<Rightarrow> 'f json list \<Rightarrow> bool"
  and py_sub_dict ::
    "(int + 'f \<Rightarrow> int + 'f \<Rightarrow> bool) \<Rightarrow> (string \<times> 'f json) list \<Rightarrow> (string \<times> 'f json) list \<Rightarrow> bool"
where
  "py_eq num_lt (JArr xs) b = (case b of JArr ys \<Rightarrow> py_eq_list num_lt xs ys | _ \<Rightarrow> False)"
| "py_eq num_lt (JObj kvs) b =
     (case b of
        JObj kvs' \<Rightarrow> py_sub_dict num_lt kvs kvs' \<and> set (map fst kvs') \<subseteq> set (map fst kvs)
      | _ \<Rightarrow> False)"
| "py_eq num_lt (JStr s) b = (case b of JStr s' \<Rightarrow> s = s' | _ \<Rightarrow> False)"
| "py_eq num_lt JNull b = (case b of JNull \<Rightarrow> True | _ \<Rightarrow> False)"
| "py_eq num_lt (JInt i) b =
     (case as_number b of
        None \<Rightarrow> False
      | Some y \<Rightarrow> \<not> number_lt num_lt (Inl i) y \<and> \<not> number_lt num_lt y (Inl i))"
| "py_eq num_lt (JBool c) b =
     (case as_number b of
        None \<Rightarrow> False
      | Some y \<Rightarrow> \<not> number_lt num_lt (Inl (if c then 1 else 0)) y
                  \<and> \<not> number_lt num_lt y (Inl (if c then 1 else 0)))"
| "py_eq num_lt (JFloat x) b =
     (case as_number b of
        None \<Rightarrow> False
      | Some y \<Rightarrow> \<not> number_lt num_lt (Inr x) y \<and> \<not> number_lt num_lt y (Inr x))"
| "py_eq_list num_lt [] ys = (ys = [])"
| "py_eq_list num_lt (x # xs) ys =
     (case ys of [] \<Rightarrow> False | y # ys' \<Rightarrow> py_eq num_lt x y \<and> py_eq_list num_lt xs ys')"
| "py_sub_dict num_lt [] kvs' = True"
| "py_sub_dict num_lt (kv # kvs) kvs' =
     ((case map_of kvs' (fst kv) of None \<Rightarrow> False | Some v' \<Rightarrow> py_eq num_lt (snd kv) v')
      \<and> py_sub_dict num_lt kvs kvs')"

fun py_lt :: "(int + 'f \<Rightarrow> int + 'f \<Rightarrow> bool) \<Rightarrow> 'f json \<Rightarrow> 'f json \<Rightarrow> py_error + bool"
  and py_lt_list ::
    "(int + 'f \<Rightarrow> int + 'f \<Rightarrow> bool) \<Rightarrow> 'f json list \<Rightarrow> 'f json list \<Rightarrow> py_error + bool"
where
  "py_lt num_lt (JArr xs) b = (case b of JArr ys \<Rightarrow> py_lt_list num_lt xs ys | _ \<Rightarrow> Inl TypeError)"
| "py_lt num_lt (JStr s) b = (case b of JStr s' \<Rightarrow> Inr (str_lt s s') | _ \<Rightarrow> Inl TypeError)"
| "py_lt num_lt (JObj kvs) b = Inl TypeError"
| "py_lt num_lt JNull b = Inl TypeError"
| "py_lt num_lt (JInt i) b =
     (case as_number b of None \<Rightarrow> Inl TypeError
      | Some y \<Rightarrow> Inr (number_lt num_lt (Inl i) y))"
| "py_lt num_lt (JBool c) b =
     (case as_number b of None \<Rightarrow> Inl TypeError
      | Some y \<Rightarrow> Inr (number_lt num_lt (Inl (if c then 1 else 0)) y))"
| "py_lt num_lt (JFloat x) b =
     (case as_number b of None \<Rightarrow> Inl TypeError
      | Some y \<Rightarrow> Inr (number_lt num_lt (Inr x) y))"
| "py_lt_list num_lt [] ys = Inr (ys \<noteq> [])"
| "py_lt_list num_lt (x # xs) ys =
     (case ys of
        [] \<Rightarrow> Inr False
      | y # ys' \<Rightarrow> if py_eq num_lt x y then py_lt_list num_lt xs ys' else py_lt num_lt x y)"

section \<open>Kraken: the constants and the REST page (src/krakenWebSocket/KrakenIntegration.py)\<close>

text \<open>
  The module \<open>krakenWebSocket/KrakenConstants.py\<close> is not among the sources: its
  constants are parameters of the functions that use them.
\<close>

record kraken_constants =
  TRADE_LIST :: int
  MARKET_INDEX :: int
  TIME_INDEX :: int
  PRICE_INDEX :: int
  VOLUME_INDEX :: int
  REST_TIMESTAMP_INDEX :: int
  REST_OPEN_INDEX :: int
  REST_HIGH_INDEX :: int
  REST_LOW_INDEX :: int
  REST_CLOSE_INDEX :: int
  REST_VOLUME_INDEX :: int

text \<open>
  Modelled from the spec: the values of the constants of \<open>KrakenConstants.py\<close>, which is
  missing. A REST row is \<open>[timestamp, open, high, low, close, volume, ...]\<close>, a trade
  tuple is \<open>[price, volume, time, side, ...]\<close>, and the tuples are the final element of a
  trade message; the market name is taken to be its first element.
\<close>

definition spec_constants :: kraken_constants where
  "spec_constants =
     \<lparr>TRADE_LIST = - 1, MARKET_INDEX = 0, TIME_INDEX = 2, PRICE_INDEX = 0, VOLUME_INDEX = 1,
      REST_TIMESTAMP_INDEX = 0, REST_OPEN_INDEX = 1, REST_HIGH_INDEX = 2, REST_LOW_INDEX = 3,
      REST_CLOSE_INDEX = 4, REST_VOLUME_INDEX = 5\<rparr>"

text \<open>
  The same constants for the layout of Kraken's public feeds, where a trade message is
  \<open>[channelID, [tuple, ...], channelName, pair]\<close> and a REST row is
  \<open>[time, open, high, low, close, vwap, volume, count]\<close>; a second instance for the
  concrete examples.
\<close>

definition wire_constants :: kraken_constants where
  "wire_constants =
     \<lparr>TRADE_LIST = 1, MARKET_INDEX = 3, TIME_INDEX = 2, PRICE_INDEX = 0, VOLUME_INDEX = 1,
      REST_TIMESTAMP_INDEX = 0, REST_OPEN_INDEX = 1, REST_HIGH_INDEX = 2, REST_LOW_INDEX = 3,
      REST_CLOSE_INDEX = 4, REST_VOLUME_INDEX = 6\<rparr>"

record KrakenMarketConfig =
  subscription_pair :: string
  ohlc_pair :: string
  response_key :: string
  key :: string
  next_frame_ts :: "int option"

text \<open>The dict that \<open>mapper\<close> builds from a row of the page.\<close>

record 'f ohlc_entry =
  k_open :: "'f json"
  k_high :: "'f json"
  k_low :: "'f json"
  k_close :: "'f json"
  k_volume :: "'f json"
  k_timestamp :: "'f json"

definition mapper :: "kraken_constants \<Rightarrow> 'f json \<Rightarrow> py_error + 'f ohlc_entry" where
  "mapper K entry =
     (case py_index entry (REST_OPEN_INDEX K) of Inl e \<Rightarrow> Inl e | Inr op \<Rightarrow>
     (case py_index entry (REST_HIGH_INDEX K) of Inl e \<Rightarrow> Inl e | Inr hi \<Rightarrow>
     (case py_index entry (REST_LOW_INDEX K) of Inl e \<Rightarrow> Inl e | Inr lo \<Rightarrow>
     (case py_index entry (REST_CLOSE_INDEX K) of Inl e \<Rightarrow> Inl e | Inr cl \<Rightarrow>
     (case py_index entry (REST_VOLUME_INDEX K) of Inl e \<Rightarrow> Inl e | Inr vo \<Rightarrow>
     (case py_index entry (REST_TIMESTAMP_INDEX K) of Inl e \<Rightarrow> Inl e | Inr ts \<Rightarrow>
        Inr \<lparr>k_open = op, k_high = hi, k_low = lo, k_close = cl, k_volume = vo,
             k_timestamp = ts\<rparr>))))))"

text \<open>\<open>list(map(f, xs))\<close> where \<open>f\<close> may raise: the first exception ends it.\<close>

fun map_raising :: "('a \<Rightarrow> py_error + 'b) \<Rightarrow> 'a list \<Rightarrow> py_error + 'b list" where
  "map_raising f [] = Inr []"
| "map_raising f (x # xs) =
     (case f x of Inl e \<Rightarrow> Inl e | Inr y \<Rightarrow>
     (case map_raising f xs of Inl e \<Rightarrow> Inl e | Inr ys \<Rightarrow> Inr (y # ys)))"

text \<open>
  \<open>KrakenHistoricalDataIntegration.parse_response_to_list\<close>. The last parsed entry is
  popped when \<open>last < last_parsed\<close>. \<open>num_lt\<close> is the parameter of \<open>py_lt\<close>.
\<close>

definition parse_response_to_list ::
  "kraken_constants \<Rightarrow> (int + 'f \<Rightarrow> int + 'f \<Rightarrow> bool) \<Rightarrow> 'f json
     \<Rightarrow> KrakenMarketConfig option \<Rightarrow> py_error + 'f ohlc_entry list" where
  "parse_response_to_list K num_lt response market_config =
     (case py_key response ''result'' of Inl e \<Rightarrow> Inl e | Inr res \<Rightarrow>
     (case market_config of None \<Rightarrow> Inl AttributeError | Some mc \<Rightarrow>
     (case py_key res (response_key mc) of Inl e \<Rightarrow> Inl e | Inr response_list \<Rightarrow>
     (case py_iter response_list of Inl e \<Rightarrow> Inl e | Inr rows \<Rightarrow>
     (case map_raising (mapper K) rows of Inl e \<Rightarrow> Inl e | Inr parsed \<Rightarrow>
     (case py_key res ''last'' of Inl e \<Rightarrow> Inl e | Inr last_committed \<Rightarrow>
     (case py_get parsed (- 1) of Inl e \<Rightarrow> Inl e | Inr last_entry \<Rightarrow>
     (case py_lt num_lt last_committed (k_timestamp last_entry) of Inl e \<Rightarrow> Inl e | Inr b \<Rightarrow>
        Inr (if b then butlast parsed else parsed)))))))))"

section \<open>Kraken: the trade message of the socket\<close>

text \<open>The dict that \<open>_ticket_list_to_dict\<close> returns.\<close>

record 'f ticket =
  market :: string
  t_timestamp :: 'f
  t_price :: 'f
  t_volume :: 'f

text \<open>The dict \<open>mapper\<close> of \<open>_ticket_list_to_dict\<close>, looked up with a decoded value.\<close>

fun market_mapper :: "'f json \<Rightarrow> py_error + string" where
  "market_mapper (JStr k) =
     (if k = ''XBT/USD'' then Inr ''btc''
      else if k = ''ETH/USD'' then Inr ''eth''
      else if k = ''BCH/USD'' then Inr ''bch''
      else if k = ''LTC/USD'' then Inr ''ltc''
      else Inl KeyError)"
| "market_mapper (JArr _) = Inl TypeError"
| "market_mapper (JObj _) = Inl TypeError"
| "market_mapper _ = Inl KeyError"

text \<open>
  The loop \<open>for entry in trade_list: volume += float(entry[VOLUME_INDEX])\<close>, from the
  volume so far. \<open>to_float\<close> is the built-in \<open>float()\<close>, \<open>None\<close> where it raises.
\<close>

fun sum_volume ::
  "('f json \<Rightarrow> 'f option) \<Rightarrow> int \<Rightarrow> 'f json list \<Rightarrow> 'f \<Rightarrow> py_error + ('f :: plus)" where
  "sum_volume to_float vi [] volume = Inr volume"
| "sum_volume to_float vi (entry # rest) volume =
     (case py_index entry vi of Inl e \<Rightarrow> Inl e | Inr v \<Rightarrow>
     (case to_float v of None \<Rightarrow> Inl ConversionError | Some x \<Rightarrow>
        sum_volume to_float vi rest (volume + x)))"

definition ticket_list_to_dict ::
  "kraken_constants \<Rightarrow> ('f json \<Rightarrow> 'f option) \<Rightarrow> 'f json
     \<Rightarrow> py_error + ('f :: {zero, plus}) ticket" where
  "ticket_list_to_dict K to_float socket_trade =
     (case py_index socket_trade (TRADE_LIST K) of Inl e \<Rightarrow> Inl e | Inr trades \<Rightarrow>
     (case py_index socket_trade (MARKET_INDEX K) of Inl e \<Rightarrow> Inl e | Inr mk \<Rightarrow>
     (case market_mapper mk of Inl e \<Rightarrow> Inl e | Inr m \<Rightarrow>
     (case py_index trades (- 1) of Inl e \<Rightarrow> Inl e | Inr last_trade \<Rightarrow>
     (case py_index last_trade (TIME_INDEX K) of Inl e \<Rightarrow> Inl e | Inr tv \<Rightarrow>
     (case to_float tv of None \<Rightarrow> Inl ConversionError | Some ts \<Rightarrow>
     (case py_index trades (- 1) of Inl e \<Rightarrow> Inl e | Inr last_trade' \<Rightarrow>
     (case py_index last_trade' (PRICE_INDEX K) of Inl e \<Rightarrow> Inl e | Inr pv \<Rightarrow>
     (case to_float pv of None \<Rightarrow> Inl ConversionError | Some pr \<Rightarrow>
     (case py_iter trades of Inl e \<Rightarrow> Inl e | Inr entries \<Rightarrow>
     (case sum_volume to_float (VOLUME_INDEX K) entries 0 of Inl e \<Rightarrow> Inl e | Inr vol \<Rightarrow>
        Inr \<lparr>market = m, t_timestamp = ts, t_price = pr, t_volume = vol\<rparr>)))))))))))"

text \<open>
  For the statements about \<open>_ticket_list_to_dict\<close>: the field \<open>i\<close> of a trade tuple
  as a float, \<open>None\<close> where the subscript or \<open>float()\<close> raises.
\<close>

definition tuple_field :: "('f json \<Rightarrow> 'f option) \<Rightarrow> int \<Rightarrow> 'f json \<Rightarrow> 'f option" where
  "tuple_field to_float i entry =
     (case py_index entry i of Inl e \<Rightarrow> None | Inr v \<Rightarrow> to_float v)"

text \<open>
  An instance of \<open>num_lt\<close> for the concrete examples: the order of the reals, which is
  Python's on the numbers used there.
\<close>

definition real_lt :: "int + real \<Rightarrow> int + real \<Rightarrow> bool" where
  "real_lt x y =
     ((case x of Inl i \<Rightarrow> real_of_int i | Inr r \<Rightarrow> r)
      < (case y of Inl i \<Rightarrow> real_of_int i | Inr r \<Rightarrow> r))"

text \<open>An instance of \<open>float()\<close> on decoded numbers, for the concrete examples.\<close>

definition float_of :: "real json \<Rightarrow> real option" where
  "float_of j = (case j of JFloat x \<Rightarrow> Some x | JInt i \<Rightarrow> Some (of_int i) | _ \<Rightarrow> None)"

section \<open>Kraken: the socket handler (class \<open>KrakenSocketHandler\<close>)\<close>

text \<open>
  The handler runs on one thread; \<open>kill_on_next_receiv\<close> is called from another one. The
  run loop is a machine with a control point for each place where it reads the flag
  \<open>_kill_thread\<close> or waits for the network:
  \<^item> \<open>Loop\<close>: the test of \<open>while self.reconnect_attempts < self.reconnect_attempts_limit\<close>;
  \<^item> \<open>Connecting\<close>: inside \<open>_create_connection\<close>, waiting for the handshake;
  \<^item> \<open>Managing\<close>: the top of \<open>while True\<close> in \<open>_manage_connection\<close>, before the flag is read;
  \<^item> \<open>Receiving\<close>: inside \<open>self.ws.recv()\<close>;
  \<^item> \<open>AfterLoop\<close>: the statement after the loop of \<open>_manage_thread\<close>;
  \<^item> \<open>Finished\<close>: \<open>run\<close> has returned; \<open>Raised e\<close>: \<open>run\<close> has ended with the exception \<open>e\<close>;
  \<^item> \<open>Idle\<close>: \<open>run\<close> has not been called.
\<close>

datatype pc = Idle | Loop | Connecting | Managing | Receiving | AfterLoop | Finished | Raised py_error

text \<open>What ended a connection, and the alerts sent through \<open>alertHandler.send_error_alert\<close>.\<close>

datatype failure = RecvError | DecodeError | CallbackError

datatype alert =
    DisconnectedAlert failure "string option"
  | MaxAttemptsAlert

text \<open>
  What the world answers to a step of the handler: the outcome of the handshake, or of
  \<open>recv\<close> together with what the callback does if it is called. A step that does not wait
  ignores the answer.
\<close>

datatype cb_result = Returns | Raises

datatype io = Quiet | ConnOk | ConnFail | RecvFail | Received string cb_result

text \<open>A schedule interleaves the steps of the handler with the kill requests of the other thread.\<close>

datatype action = KillReq | HandlerStep io

text \<open>
  The attributes of the instance, the control point, and what the run has done so far:
  the payloads returned by \<open>recv\<close>, the messages handed to the callback, the alerts sent,
  the number of calls of \<open>_create_connection\<close> and of \<open>logger.error\<close>. \<open>started\<close> is the
  flag of \<open>threading.Thread\<close> that \<open>start()\<close> sets.
\<close>

record ('f, 'c) KrakenSocketHandler =
  ws :: "nat option"
  reconnect_attempts_limit :: int
  reconnect_attempts :: int
  pair :: "string list option"
  kill_thread :: bool
  on_new_price_callback :: "'c option"
  started :: bool
  pc :: pc
  received :: "string list"
  delivered :: "'f json list"
  alerts :: "alert list"
  handshakes :: nat
  logged_errors :: nat

definition KrakenSocketHandler_init :: "('f, 'c) KrakenSocketHandler" where
  "KrakenSocketHandler_init =
     \<lparr>ws = None, reconnect_attempts_limit = 3, reconnect_attempts = 0, pair = None,
      kill_thread = False, on_new_price_callback = None, started = False, pc = Idle,
      received = [], delivered = [], alerts = [], handshakes = 0, logged_errors = 0\<rparr>"

definition kill_on_next_receiv :: "('f, 'c) KrakenSocketHandler \<Rightarrow> ('f, 'c) KrakenSocketHandler" where
  "kill_on_next_receiv s = s\<lparr>kill_thread := True\<rparr>"

text \<open>
  The \<open>except\<close> branch of \<open>_manage_connection\<close> and what \<open>_manage_thread\<close> does with the
  pair it returns: the socket is closed and forgotten, the alert is sent, the loop goes on.
\<close>

definition disconnect ::
  "failure \<Rightarrow> string option \<Rightarrow> ('f, 'c) KrakenSocketHandler \<Rightarrow> ('f, 'c) KrakenSocketHandler" where
  "disconnect e response s =
     s\<lparr>ws := None, alerts := alerts s @ [DisconnectedAlert e response], pc := Loop\<rparr>"

text \<open>
  One step of the run loop. \<open>loads\<close> is \<open>json.loads\<close>, \<open>None\<close> where it raises.
  \<^item> At \<open>Loop\<close> (lines 118 to 121): with attempts left and no socket, the counter is
    incremented and \<open>_create_connection\<close> is entered; with a socket, line 124 enters
    \<open>_manage_connection\<close>.
  \<^item> At \<open>Connecting\<close> (lines 153 to 171, 122): success stores the socket and resets the
    counter; failure logs an error and leaves \<open>ws = None\<close>.
  \<^item> At \<open>Managing\<close> (line 139): with the flag set \<open>_manage_connection\<close> returns \<open>None\<close>,
    and the assignment \<open>exception, string = None\<close> of line 125 raises \<open>TypeError\<close>.
  \<^item> At \<open>Receiving\<close> (lines 142 to 151): the payload is decoded and, if it is a list,
    handed to the callback; any exception disconnects.
  \<^item> At \<open>AfterLoop\<close> (lines 132, 133): the alert is sent unless the flag is set.
\<close>

definition handler_step ::
  "(string \<Rightarrow> 'f json option) \<Rightarrow> io \<Rightarrow> ('f, 'c) KrakenSocketHandler
     \<Rightarrow> ('f, 'c) KrakenSocketHandler" where
  "handler_step loads a s =
     (case pc s of
        Loop \<Rightarrow>
          (if reconnect_attempts s < reconnect_attempts_limit s then
             (if ws s = None
              then s\<lparr>reconnect_attempts := reconnect_attempts s + 1,
                     handshakes := handshakes s + 1, pc := Connecting\<rparr>
              else s\<lparr>pc := Managing\<rparr>)
           else s\<lparr>pc := AfterLoop\<rparr>)
      | Connecting \<Rightarrow>
          (case a of
             ConnOk \<Rightarrow> s\<lparr>ws := Some (handshakes s), reconnect_attempts := 0, pc := Managing\<rparr>
           | ConnFail \<Rightarrow> s\<lparr>ws := None, logged_errors := logged_errors s + 1, pc := Loop\<rparr>
           | _ \<Rightarrow> s)
      | Managing \<Rightarrow>
          (if kill_thread s then s\<lparr>pc := Raised TypeError\<rparr> else s\<lparr>pc := Receiving\<rparr>)
      | Receiving \<Rightarrow>
          (case a of
             RecvFail \<Rightarrow> disconnect RecvError None s
           | Received p r \<Rightarrow>
               (case loads p of
                  None \<Rightarrow> disconnect DecodeError (Some p) (s\<lparr>received := received s @ [p]\<rparr>)
                | Some result \<Rightarrow>
                    (if is_list result then
                       (case r of
                          Returns \<Rightarrow>
                            s\<lparr>received := received s @ [p],
                              delivered := delivered s @ [result], pc := Managing\<rparr>
                        | Raises \<Rightarrow>
                            disconnect CallbackError (Some p)
                              (s\<lparr>received := received s @ [p],
                                 delivered := delivered s @ [result]\<rparr>))
                     else s\<lparr>received := received s @ [p], pc := Managing\<rparr>))
           | _ \<Rightarrow> s)
      | AfterLoop \<Rightarrow>
          (if \<not> kill_thread s
           then s\<lparr>alerts := alerts s @ [MaxAttemptsAlert], pc := Finished\<rparr>
           else s\<lparr>pc := Finished\<rparr>)
      | _ \<Rightarrow> s)"

fun step ::
  "(string \<Rightarrow> 'f json option) \<Rightarrow> action \<Rightarrow> ('f, 'c) KrakenSocketHandler
     \<Rightarrow> ('f, 'c) KrakenSocketHandler" where
  "step loads KillReq s = kill_on_next_receiv s"
| "step loads (HandlerStep a) s = handler_step loads a s"

fun exec ::
  "(string \<Rightarrow> 'f json option) \<Rightarrow> action list \<Rightarrow> ('f, 'c) KrakenSocketHandler
     \<Rightarrow> ('f, 'c) KrakenSocketHandler" where
  "exec loads [] s = s"
| "exec loads (a # as) s = exec loads as (step loads a s)"

text \<open>
  \<open>run\<close> up to the loop: the two checks, then the first two lines of \<open>_manage_thread\<close>.
\<close>

definition run :: "('f, 'c) KrakenSocketHandler \<Rightarrow> ('f, 'c) KrakenSocketHandler" where
  "run s =
     (if pair s = None then s\<lparr>pc := Raised AttributeError\<rparr>
      else if on_new_price_callback s = None then s\<lparr>pc := Raised AttributeError\<rparr>
      else s\<lparr>reconnect_attempts_limit :=
                (if reconnect_attempts_limit s \<le> 0 then 1 else reconnect_attempts_limit s),
              reconnect_attempts := 0, pc := Loop\<rparr>)"

definition init_args ::
  "string list \<Rightarrow> 'c \<Rightarrow> ('f, 'c) KrakenSocketHandler \<Rightarrow> ('f, 'c) KrakenSocketHandler" where
  "init_args p cb s = s\<lparr>pair := Some p, on_new_price_callback := Some cb\<rparr>"

text \<open>
  The two ways to start. They are modelled for an instance whose loop is not running.
  \<open>connect_as_new_thread\<close> returns the exception that \<open>Thread.start()\<close> raises to the
  caller, if any: \<open>RuntimeError\<close> for a thread that was started before.
\<close>

definition connect_on_this_thread ::
  "string list \<Rightarrow> 'c \<Rightarrow> ('f, 'c) KrakenSocketHandler \<Rightarrow> ('f, 'c) KrakenSocketHandler" where
  "connect_on_this_thread p cb s = run (init_args p cb (s\<lparr>kill_thread := False\<rparr>))"

definition connect_as_new_thread ::
  "string list \<Rightarrow> 'c \<Rightarrow> ('f, 'c) KrakenSocketHandler
     \<Rightarrow> ('f, 'c) KrakenSocketHandler \<times> py_error option" where
  "connect_as_new_thread p cb s =
     (if started (init_args p cb s) then (init_args p cb s, Some RuntimeError)
      else (run ((init_args p cb s)\<lparr>started := True\<rparr>), None))"

text \<open>A restriction of \<open>json.loads\<close> to four payloads, for the concrete examples.\<close>

definition loads_example :: "string \<Rightarrow> real json option" where
  "loads_example p =
     (if p = ''[1]'' then Some (JArr [JInt 1])
      else if p = ''[2]'' then Some (JArr [JInt 2])
      else if p = ''{}'' then Some (JObj [])
      else None)"

text \<open>The messages that reach the callback, of the payloads \<open>recv\<close> has returned.\<close>

definition forwarded :: "(string \<Rightarrow> 'f json option) \<Rightarrow> string list \<Rightarrow> 'f json list" where
  "forwarded loads ps =
     List.map_filter
       (\<lambda>p. case loads p of None \<Rightarrow> None
             | Some result \<Rightarrow> if is_list result then Some result else None) ps"

text \<open>
  Two measures for what a run can still do once the flag is set: the messages it can
  still hand to the callback, and the calls of \<open>_create_connection\<close> it can still make.
\<close>

definition messages_left :: "('f, 'c) KrakenSocketHandler \<Rightarrow> nat" where
  "messages_left s = (if pc s = Receiving then 1 else 0)"

definition handshakes_left :: "('f, 'c) KrakenSocketHandler \<Rightarrow> nat" where
  "handshakes_left s =
     (if pc s = Connecting \<or> pc s = Receiving \<or> (pc s = Loop \<and> ws s = None)
      then nat (reconnect_attempts_limit s - reconnect_attempts s) else 0)"

text \<open>An answer of the world that makes the step of the handler fail.\<close>

fun io_fails :: "(string \<Rightarrow> 'f json option) \<Rightarrow> action \<Rightarrow> bool" where
  "io_fails loads (HandlerStep ConnFail) = True"
| "io_fails loads (HandlerStep RecvFail) = True"
| "io_fails loads (HandlerStep (Received p r)) =
     (case loads p of None \<Rightarrow> True | Some result \<Rightarrow> is_list result \<and> r = Raises)"
| "io_fails loads _ = False"

text \<open>The handler holds a socket and is in \<open>_manage_connection\<close>.\<close>

definition connected :: "('f, 'c) KrakenSocketHandler \<Rightarrow> bool" where
  "connected s = ((pc s = Managing \<or> pc s = Receiving) \<and> ws s \<noteq> None)"

text \<open>The run loop of the instance has ended.\<close>

fun exited :: "pc \<Rightarrow> bool" where
  "exited Finished = True"
| "exited (Raised e) = True"
| "exited _ = False"

section \<open>Buda: resampling and merging (pandas)\<close>

text \<open>
  \<open>resample('1H')\<close> on an index of type \<open>datetime64[ms]\<close>: the bucket of a timestamp is
  the start of its hour, in milliseconds.
\<close>

definition hour_ms :: int where
  "hour_ms = 3600000"

definition bucket :: "int \<Rightarrow> int" where
  "bucket t = t div hour_ms * hour_ms"

text \<open>
  pandas sorts the rows by their index (a stable sort) and then makes one bin for every
  hour from the hour of the first row to the hour of the last one. \<open>resample_bins\<close>
  takes the sorted index.
\<close>

definition resample_bins :: "int list \<Rightarrow> int list" where
  "resample_bins ts =
     (case ts of
        [] \<Rightarrow> []
      | t # _ \<Rightarrow>
          map (\<lambda>k. (t div hour_ms + int k) * hour_ms)
            [0 ..< Suc (nat (last ts div hour_ms - t div hour_ms))])"

text \<open>
  \<open>fillna(method='ffill')\<close>: in every column, a missing value takes the last value above
  it, if there is one. \<open>fill_from p r\<close> fills the row \<open>r\<close> from the filled row \<open>p\<close> above it.
\<close>

definition fill_from :: "'f candle \<Rightarrow> 'f candle \<Rightarrow> 'f candle" where
  "fill_from p r =
     r\<lparr>c_open := (case c_open r of None \<Rightarrow> c_open p | Some x \<Rightarrow> Some x),
       c_high := (case c_high r of None \<Rightarrow> c_high p | Some x \<Rightarrow> Some x),
       c_low := (case c_low r of None \<Rightarrow> c_low p | Some x \<Rightarrow> Some x),
       c_close := (case c_close r of None \<Rightarrow> c_close p | Some x \<Rightarrow> Some x),
       c_volume := (case c_volume r of None \<Rightarrow> c_volume p | Some x \<Rightarrow> Some x)\<rparr>"

fun ffill_from :: "'f candle \<Rightarrow> 'f candle list \<Rightarrow> 'f candle list" where
  "ffill_from p [] = []"
| "ffill_from p (r # rs) = fill_from p r # ffill_from (fill_from p r) rs"

definition no_row :: "'f candle" where
  "no_row = \<lparr>date = 0, c_open = None, c_high = None, c_low = None, c_close = None,
             c_volume = None\<rparr>"

definition ffill :: "'f candle list \<Rightarrow> 'f candle list" where
  "ffill rs = ffill_from no_row rs"

text \<open>
  \<open>self.trade_list['price'].resample('1H').ohlc()\<close> for one bin: first, maximum, minimum
  and last price of the trades of the bin in the sorted order, missing for an empty bin.
  The frame has no volume column yet.
\<close>

definition ohlc_bin ::
  "('f :: linorder, 'v) BudaMarketTradeEntry list \<Rightarrow> int \<Rightarrow> 'f candle" where
  "ohlc_bin srt b =
     (case map price (filter (\<lambda>e. bucket (timestamp e) = b) srt) of
        [] \<Rightarrow> \<lparr>date = b, c_open = None, c_high = None, c_low = None, c_close = None,
                c_volume = None\<rparr>
      | p # ps \<Rightarrow> \<lparr>date = b, c_open = Some p, c_high = Some (foldl max p ps),
                    c_low = Some (foldl min p ps), c_close = Some (last (p # ps)),
                    c_volume = None\<rparr>)"

text \<open>\<open>self.trade_list['amount'].resample('1H').sum()\<close> for one bin; an empty bin sums to 0.\<close>

definition volume_bin ::
  "('f :: {zero, plus}, 'v) BudaMarketTradeEntry list \<Rightarrow> int \<Rightarrow> 'f" where
  "volume_bin srt b =
     foldl (+) 0 (map amount (filter (\<lambda>e. bucket (timestamp e) = b) srt))"

text \<open>
  pandas keeps a datetime index in nanoseconds in 64 bits: a timestamp in milliseconds
  fits when its absolute value is at most \<open>ms_bound\<close>.
\<close>

definition ms_bound :: int where
  "ms_bound = 9223372036854"

definition in_datetime_range :: "int \<Rightarrow> bool" where
  "in_datetime_range t = (- ms_bound \<le> t \<and> t \<le> ms_bound)"

text \<open>
  What an exception of \<open>resample_ohlcv\<close> leaves in \<open>self.trade_list\<close>: its value before
  the call (\<open>Unchanged\<close>), or the DataFrame of the raw trades that line 142 has stored
  already (\<open>RawTradeFrame\<close>). In the second case the instance answers \<open>is_resampled()\<close>
  with \<open>True\<close> though it holds no candles; no further call on it is modelled.
\<close>

datatype left_in_trade_list = Unchanged | RawTradeFrame

definition is_resampled_after ::
  "left_in_trade_list \<Rightarrow> ('f, 'v) BudaMarketTradeList \<Rightarrow> bool" where
  "is_resampled_after left s = (case left of Unchanged \<Rightarrow> is_resampled s | RawTradeFrame \<Rightarrow> True)"

text \<open>
  The frame that \<open>resample_ohlcv\<close> computes, or the exception it raises with what is left
  in \<open>self.trade_list\<close>.
  \<^item> On an instance that is resampled already, the comprehension of line 142 runs over
    the column names of the DataFrame and \<open>to_dict\<close> raises \<open>AttributeError\<close>.
  \<^item> On an empty list, the DataFrame has no column \<open>timestamp\<close> and \<open>set_index\<close> raises
    \<open>KeyError\<close>, before the assignment of line 142.
  \<^item> A timestamp outside the range of a datetime index raises \<open>OutOfBoundsDatetime\<close> in
    line 144 (an integer beyond 64 bits fails there too, in numpy; the model gives it
    the same error value).
  \<^item> With a \<open>filter_timestamp\<close>, \<open>_filter_by_timestamp\<close> reads \<open>self.trade_list.timestamp\<close>,
    which is no column any more, and raises \<open>AttributeError\<close>.
  \<^item> The bins of line 151 must lie in the range too: the model raises when the hour of a
    timestamp or the hour after it does not.
  \<^item> Otherwise the prices are resampled and forward filled, and the volume column is
    assigned afterwards.
\<close>

definition resampled_frame ::
  "('f :: {zero, plus, linorder}, 'v) BudaMarketTradeList
     \<Rightarrow> (py_error \<times> left_in_trade_list) + 'f candle list" where
  "resampled_frame s =
     (case trade_list s of
        DataFrame _ \<Rightarrow> Inl (AttributeError, Unchanged)
      | RawList l \<Rightarrow>
          (if l = [] then Inl (KeyError, Unchanged)
           else if \<not> list_all (\<lambda>e. in_datetime_range (timestamp e)) l
             then Inl (OutOfBoundsDatetime, RawTradeFrame)
           else if filter_timestamp s \<noteq> None then Inl (AttributeError, RawTradeFrame)
           else if \<not> list_all (\<lambda>e. in_datetime_range (bucket (timestamp e))
                                   \<and> in_datetime_range (bucket (timestamp e) + hour_ms)) l
             then Inl (OutOfBoundsDatetime, RawTradeFrame)
           else
             (let srt = sort_key timestamp l;
                  ohlcv = ffill (map (ohlc_bin srt) (resample_bins (map timestamp srt)))
              in Inr (map (\<lambda>r. r\<lparr>c_volume := Some (volume_bin srt (date r))\<rparr>) ohlcv))))"

definition resample_ohlcv ::
  "('f :: {zero, plus, linorder}, 'v) BudaMarketTradeList
     \<Rightarrow> (py_error \<times> left_in_trade_list) + ('f, 'v) BudaMarketTradeList" where
  "resample_ohlcv s =
     (case resampled_frame s of
        Inl e \<Rightarrow> Inl e
      | Inr d \<Rightarrow> Inr (s\<lparr>trade_list := DataFrame d\<rparr>))"

text \<open>
  The aggregations of \<open>merge\<close> skip missing values: \<open>first\<close> and \<open>last\<close> are the first and
  the last value present, \<open>max\<close> and \<open>min\<close> run over the values present, \<open>sum\<close> adds them
  from 0.
\<close>

definition present :: "'a option list \<Rightarrow> 'a list" where
  "present xs = List.map_filter (\<lambda>x. x) xs"

definition first_valid :: "'a option list \<Rightarrow> 'a option" where
  "first_valid xs = (case present xs of [] \<Rightarrow> None | v # vs \<Rightarrow> Some v)"

definition last_valid :: "'a option list \<Rightarrow> 'a option" where
  "last_valid xs = (case present xs of [] \<Rightarrow> None | v # vs \<Rightarrow> Some (last (v # vs)))"

definition max_valid :: "('a :: linorder) option list \<Rightarrow> 'a option" where
  "max_valid xs = (case present xs of [] \<Rightarrow> None | v # vs \<Rightarrow> Some (foldl max v vs))"

definition min_valid :: "('a :: linorder) option list \<Rightarrow> 'a option" where
  "min_valid xs = (case present xs of [] \<Rightarrow> None | v # vs \<Rightarrow> Some (foldl min v vs))"

definition sum_valid :: "('a :: {zero, plus}) option list \<Rightarrow> 'a" where
  "sum_valid xs = foldl (+) 0 (present xs)"

text \<open>
  \<open>merged.resample('1H').agg({'open': 'first', 'high': 'max', 'low': 'min',
  'close': 'last', 'volume': 'sum'})\<close> for one bin, on the sorted rows.
\<close>

definition agg_bin :: "('f :: {zero, plus, linorder}) candle list \<Rightarrow> int \<Rightarrow> 'f candle" where
  "agg_bin srt b =
     \<lparr>date = b,
      c_open = first_valid (map c_open (filter (\<lambda>r. bucket (date r) = b) srt)),
      c_high = max_valid (map c_high (filter (\<lambda>r. bucket (date r) = b) srt)),
      c_low = min_valid (map c_low (filter (\<lambda>r. bucket (date r) = b) srt)),
      c_close = last_valid (map c_close (filter (\<lambda>r. bucket (date r) = b) srt)),
      c_volume = Some (sum_valid (map c_volume (filter (\<lambda>r. bucket (date r) = b) srt)))\<rparr>"

definition resample_agg :: "('f :: {zero, plus, linorder}) candle list \<Rightarrow> 'f candle list" where
  "resample_agg merged =
     ffill (map (agg_bin (sort_key date merged))
              (resample_bins (map date (sort_key date merged))))"

text \<open>
  \<open>merge\<close>. The argument is an instance of the class by its type. \<open>own_frame\<close> is the
  frame of \<open>self\<close> when the rows are appended: its DataFrame, or the one that
  \<open>resample_ohlcv\<close> computes first. The rows of the other frame are appended to it and
  the whole is resampled and forward filled.
\<close>

definition own_frame ::
  "('f :: {zero, plus, linorder}, 'v) BudaMarketTradeList
     \<Rightarrow> (py_error \<times> left_in_trade_list) + 'f candle list" where
  "own_frame s = (case trade_list s of DataFrame d \<Rightarrow> Inr d | RawList _ \<Rightarrow> resampled_frame s)"

definition merge ::
  "('f :: {zero, plus, linorder}, 'v) BudaMarketTradeList \<Rightarrow> ('f, 'v) BudaMarketTradeList
     \<Rightarrow> (py_error \<times> left_in_trade_list) + ('f, 'v) BudaMarketTradeList" where
  "merge s other =
     (case trade_list other of
        RawList _ \<Rightarrow> Inl (ValueError, Unchanged)
      | DataFrame d2 \<Rightarrow>
          (case own_frame s of
             Inl e \<Rightarrow> Inl e
           | Inr d1 \<Rightarrow> Inr (s\<lparr>trade_list := DataFrame (resample_agg (d1 @ d2))\<rparr>)))"

text \<open>
  The row \<open>r\<close> repeats the row \<open>prev\<close> above it column by column (open from open, high
  from high, low from low, close from close) and has the volume 0.
\<close>

definition carried :: "('f :: zero) candle \<Rightarrow> 'f candle \<Rightarrow> bool" where
  "carried prev r =
     (c_open r = c_open prev \<and> c_high r = c_high prev \<and> c_low r = c_low prev
      \<and> c_close r = c_close prev \<and> c_volume r = Some 0)"

section \<open>Theorems: the trade list, Raw and Aggregated mode\<close>

lemma append_entries_all_convert:
  "map (BudaMarketTradeEntry_init to_int to_float) es = map Inr ts \<Longrightarrow>
   append_entries to_int to_float es acc = (acc @ ts, None)"
proof (induction es arbitrary: acc ts)
  case Nil
  then show ?case by simp
next
  case (Cons e es)
  then obtain t ts' where "ts = t # ts'"
    by (cases ts) auto
  with Cons show ?case by auto
qed

lemma BudaMarketTradeEntry_init_not_assertion:
  "BudaMarketTradeEntry_init to_int to_float e \<noteq> Inl AssertionError"
  by (auto simp: BudaMarketTradeEntry_init_def py_get_def
      split: sum.splits option.splits if_splits)

lemma append_entries_not_assertion:
  "snd (append_entries to_int to_float es acc) \<noteq> Some AssertionError"
proof (induction es arbitrary: acc)
  case Nil
  then show ?case by simp
next
  case (Cons e es)
  with BudaMarketTradeEntry_init_not_assertion [of to_int to_float e]
  show ?case by (auto split: sum.splits)
qed

text \<open>
  C10. An instance is in Aggregated mode exactly when its \<open>trade_list\<close> is a DataFrame.
  The constructor takes a list (the instance starts in Raw mode) or a DataFrame (the
  instance starts in Aggregated mode, with no call of \<open>resample_ohlcv\<close>), starts with the
  empty list for \<open>None\<close>, and raises for any other value of \<open>existing_entries\<close>.
\<close>

theorem BudaMarketTradeList_init_modes:
  fixes s :: "('f, 'v) BudaMarketTradeList"
    and l :: "('f, 'v) BudaMarketTradeEntry list"
    and d :: "'f candle list"
  shows
  "(is_resampled s \<longleftrightarrow> (\<exists>d. trade_list s = DataFrame d))
   \<and> (\<exists>s1. BudaMarketTradeList_init (ExList l) ft = Inr s1
          \<and> trade_list s1 = RawList l \<and> \<not> is_resampled s1)
   \<and> (\<exists>s2 :: ('f, 'v) BudaMarketTradeList. BudaMarketTradeList_init (ExFrame d) ft = Inr s2
          \<and> trade_list s2 = DataFrame d \<and> is_resampled s2)
   \<and> (\<exists>s3 :: ('f, 'v) BudaMarketTradeList. BudaMarketTradeList_init ExNone ft = Inr s3
          \<and> trade_list s3 = RawList [] \<and> \<not> is_resampled s3)
   \<and> BudaMarketTradeList_init ExOther ft
       = (Inl AssertionError :: py_error + ('f, 'v) BudaMarketTradeList)"
  by (auto simp: BudaMarketTradeList_init_def is_resampled_def split: store.splits)

theorem BudaMarketTradeList_init_modes_witness:
  "is_resampled (\<lparr>trade_list = DataFrame [], filter_timestamp = None\<rparr>
                   :: (real, int) BudaMarketTradeList)
   \<and> BudaMarketTradeList_init ExOther None
       = (Inl AssertionError :: py_error + (real, int) BudaMarketTradeList)"
  using BudaMarketTradeList_init_modes
    [of "\<lparr>trade_list = DataFrame [], filter_timestamp = None\<rparr>
           :: (real, int) BudaMarketTradeList" "[]" None "[]"]
  by simp

lemma append_raw_modes:
  "(snd (append_raw to_int to_float s es) = Some AssertionError \<longleftrightarrow> is_resampled s)
   \<and> (is_resampled s \<longrightarrow> fst (append_raw to_int to_float s es) = s)
   \<and> (\<not> is_resampled s \<longrightarrow>
        map (BudaMarketTradeEntry_init to_int to_float) es = map Inr ts \<longrightarrow>
        (\<exists>l. trade_list s = RawList l
           \<and> append_raw to_int to_float s es = (s\<lparr>trade_list := RawList (l @ ts)\<rparr>, None))
        \<and> \<not> is_resampled (fst (append_raw to_int to_float s es)))"
proof (cases "trade_list s")
  case (RawList l)
  have "snd (append_entries to_int to_float es l) \<noteq> Some AssertionError"
    by (rule append_entries_not_assertion)
  then have a: "snd (append_raw to_int to_float s es) \<noteq> Some AssertionError"
    by (cases "append_entries to_int to_float es l") (simp add: append_raw_def RawList)
  have b: "\<not> is_resampled s"
    by (simp add: is_resampled_def RawList)
  have c: "\<not> is_resampled (fst (append_raw to_int to_float s es))"
    by (simp add: append_raw_def is_resampled_def RawList split: prod.splits)
  have d: "append_raw to_int to_float s es = (s\<lparr>trade_list := RawList (l @ ts)\<rparr>, None)"
    if "map (BudaMarketTradeEntry_init to_int to_float) es = map Inr ts"
    using append_entries_all_convert [OF that, of l]
    by (simp add: append_raw_def RawList)
  from a b c d RawList show ?thesis by blast
next
  case (DataFrame d)
  then show ?thesis
    by (simp add: append_raw_def is_resampled_def)
qed

lemma append_entries_prefix:
  "\<exists>ts. map Inr ts
          = takeWhile (\<lambda>r. \<not> isl r) (map (BudaMarketTradeEntry_init to_int to_float) es)
      \<and> append_entries to_int to_float es acc
          = (acc @ ts,
             case dropWhile (\<lambda>r. \<not> isl r)
                    (map (BudaMarketTradeEntry_init to_int to_float) es) of
               [] \<Rightarrow> None
             | r # _ \<Rightarrow> Some (projl r))"
proof (induction es arbitrary: acc)
  case Nil
  show ?case by simp
next
  case (Cons e es)
  show ?case
  proof (cases "BudaMarketTradeEntry_init to_int to_float e")
    case (Inl x)
    then show ?thesis by simp
  next
    case (Inr t)
    from Cons.IH [of "acc @ [t]"] obtain ts where
      ts: "map Inr ts
             = takeWhile (\<lambda>r. \<not> isl r) (map (BudaMarketTradeEntry_init to_int to_float) es)"
        "append_entries to_int to_float es (acc @ [t])
          = ((acc @ [t]) @ ts,
             case dropWhile (\<lambda>r. \<not> isl r)
                    (map (BudaMarketTradeEntry_init to_int to_float) es) of
               [] \<Rightarrow> None
             | r # _ \<Rightarrow> Some (projl r))"
      by blast
    with Inr have "map Inr (t # ts)
          = takeWhile (\<lambda>r. \<not> isl r)
              (map (BudaMarketTradeEntry_init to_int to_float) (e # es))
      \<and> append_entries to_int to_float (e # es) acc
          = (acc @ (t # ts),
             case dropWhile (\<lambda>r. \<not> isl r)
                    (map (BudaMarketTradeEntry_init to_int to_float) (e # es)) of
               [] \<Rightarrow> None
             | r # _ \<Rightarrow> Some (projl r))"
      by simp
    then show ?thesis by blast
  qed
qed

lemma append_raw_raw_mode:
  assumes "trade_list s = RawList l"
  shows "(\<exists>ts. map Inr ts
            = takeWhile (\<lambda>r. \<not> isl r) (map (BudaMarketTradeEntry_init to_int to_float) es)
          \<and> fst (append_raw to_int to_float s es) = s\<lparr>trade_list := RawList (l @ ts)\<rparr>)
      \<and> snd (append_raw to_int to_float s es)
          = (case dropWhile (\<lambda>r. \<not> isl r)
                    (map (BudaMarketTradeEntry_init to_int to_float) es) of
               [] \<Rightarrow> None
             | r # _ \<Rightarrow> Some (projl r))"
proof -
  from append_entries_prefix [of to_int to_float es l] obtain ts where
    ts: "map Inr ts
           = takeWhile (\<lambda>r. \<not> isl r) (map (BudaMarketTradeEntry_init to_int to_float) es)"
      "append_entries to_int to_float es l
          = (l @ ts,
             case dropWhile (\<lambda>r. \<not> isl r)
                    (map (BudaMarketTradeEntry_init to_int to_float) es) of
               [] \<Rightarrow> None
             | r # _ \<Rightarrow> Some (projl r))"
    by blast
  from ts(2) assms have
    "fst (append_raw to_int to_float s es) = s\<lparr>trade_list := RawList (l @ ts)\<rparr>"
    and sn: "snd (append_raw to_int to_float s es)
          = (case dropWhile (\<lambda>r. \<not> isl r)
                    (map (BudaMarketTradeEntry_init to_int to_float) es) of
               [] \<Rightarrow> None
             | r # _ \<Rightarrow> Some (projl r))"
    by (simp_all add: append_raw_def)
  with ts(1) show ?thesis by blast
qed

text \<open>
  C9, as the code has it. \<open>append_raw\<close> raises the usage error (\<open>AssertionError\<close>) if and
  only if the instance is in Aggregated mode, and then leaves it unchanged. In Raw mode
  it converts the new entries in their order and appends them up to the first one that
  does not convert: the raw buffer grows by exactly the entries before it, in their
  order, and the exception of that entry is raised; if all convert, all are appended and
  nothing is raised. The instance stays in Raw mode in either case.
\<close>

theorem append_raw_usage_error:
  "(snd (append_raw to_int to_float s es) = Some AssertionError \<longleftrightarrow> is_resampled s)
   \<and> (is_resampled s \<longrightarrow> fst (append_raw to_int to_float s es) = s)
   \<and> (\<not> is_resampled s \<longrightarrow>
        map (BudaMarketTradeEntry_init to_int to_float) es = map Inr ts \<longrightarrow>
        (\<exists>l. trade_list s = RawList l
           \<and> append_raw to_int to_float s es = (s\<lparr>trade_list := RawList (l @ ts)\<rparr>, None))
        \<and> \<not> is_resampled (fst (append_raw to_int to_float s es)))
   \<and> (trade_list s = RawList l \<longrightarrow>
        (\<exists>ps. map Inr ps
              = takeWhile (\<lambda>r. \<not> isl r) (map (BudaMarketTradeEntry_init to_int to_float) es)
            \<and> fst (append_raw to_int to_float s es) = s\<lparr>trade_list := RawList (l @ ps)\<rparr>)
        \<and> snd (append_raw to_int to_float s es)
            = (case dropWhile (\<lambda>r. \<not> isl r)
                      (map (BudaMarketTradeEntry_init to_int to_float) es) of
                 [] \<Rightarrow> None
               | r # _ \<Rightarrow> Some (projl r))
        \<and> \<not> is_resampled (fst (append_raw to_int to_float s es)))"
proof -
  have raw: "\<not> is_resampled (fst (append_raw to_int to_float s es))"
    if "trade_list s = RawList l"
    using that
    by (cases "append_entries to_int to_float es l")
       (simp add: append_raw_def is_resampled_def)
  from append_raw_modes [of to_int to_float s es ts]
    append_raw_raw_mode [of s l to_int to_float es] raw
  show ?thesis by blast
qed

theorem append_raw_usage_error_witness:
  "\<not> is_resampled (\<lparr>trade_list = RawList [], filter_timestamp = None\<rparr>
                     :: (real, int) BudaMarketTradeList)
   \<and> map (BudaMarketTradeEntry_init Some (\<lambda>v. Some (real_of_int v)))
         [[1, 2, 3, 0], [5, 6, 7, 1]]
       = map Inr [\<lparr>timestamp = 1, amount = 2, price = 3, direction = 0\<rparr>,
                  \<lparr>timestamp = 5, amount = 6, price = 7, direction = 1\<rparr>]
   \<and> append_raw Some (\<lambda>v. Some (real_of_int v))
         \<lparr>trade_list = RawList [], filter_timestamp = None\<rparr> [[1, 2, 3, 0], [5, 6, 7, 1]]
       = (\<lparr>trade_list = RawList [\<lparr>timestamp = 1, amount = 2, price = 3, direction = 0\<rparr>,
                                   \<lparr>timestamp = 5, amount = 6, price = 7, direction = 1\<rparr>],
           filter_timestamp = None\<rparr>, None)
   \<and> snd (append_raw Some (\<lambda>v. Some (real_of_int v))
         \<lparr>trade_list = DataFrame [], filter_timestamp = None\<rparr> [[1, 2, 3, 0], [5, 6, 7, 1]])
       = Some AssertionError
   \<and> fst (append_raw Some (\<lambda>v. Some (real_of_int v))
         \<lparr>trade_list = DataFrame [], filter_timestamp = None\<rparr> [[1, 2, 3, 0], [5, 6, 7, 1]])
       = \<lparr>trade_list = DataFrame [], filter_timestamp = None\<rparr>
   \<and> append_raw Some (\<lambda>v. Some (real_of_int v))
         \<lparr>trade_list = RawList [\<lparr>timestamp = 0, amount = 1, price = 1, direction = 1\<rparr>],
           filter_timestamp = None\<rparr> [[1, 2, 3, 0], [5, 6], [7, 8, 9, 1]]
       = (\<lparr>trade_list = RawList [\<lparr>timestamp = 0, amount = 1, price = 1, direction = 1\<rparr>,
                                   \<lparr>timestamp = 1, amount = 2, price = 3, direction = 0\<rparr>],
           filter_timestamp = None\<rparr>, Some IndexError)"
  using append_raw_usage_error [of Some "\<lambda>v. Some (real_of_int v)"
      "\<lparr>trade_list = RawList [], filter_timestamp = None\<rparr>" "[[1, 2, 3, 0], [5, 6, 7, 1]]"
      "[\<lparr>timestamp = 1, amount = 2, price = 3, direction = 0\<rparr>,
        \<lparr>timestamp = 5, amount = 6, price = 7, direction = 1\<rparr>]" "[]"]
    append_raw_usage_error [of Some "\<lambda>v. Some (real_of_int v)"
      "\<lparr>trade_list = DataFrame [], filter_timestamp = None\<rparr>" "[[1, 2, 3, 0], [5, 6, 7, 1]]"
      "[\<lparr>timestamp = 1, amount = 2, price = 3, direction = 0\<rparr>,
        \<lparr>timestamp = 5, amount = 6, price = 7, direction = 1\<rparr>]" "[]"]
    append_raw_usage_error [of Some "\<lambda>v. Some (real_of_int v)"
      "\<lparr>trade_list = RawList [\<lparr>timestamp = 0, amount = 1, price = 1, direction = 1\<rparr>],
           filter_timestamp = None\<rparr>" "[[1, 2, 3, 0], [5, 6], [7, 8, 9, 1]]"
      "[]" "[\<lparr>timestamp = 0, amount = 1, price = 1, direction = 1\<rparr>]"]
  by (simp add: is_resampled_def BudaMarketTradeEntry_init_def py_get_def append_raw_def)

text \<open>
  C9 as stated fails: in Raw mode, with a second entry of two fields, only the first
  entry is appended and \<open>IndexError\<close> is raised.
\<close>

theorem append_raw_malformed_entry_counterexample:
  "\<not> is_resampled (\<lparr>trade_list = RawList [], filter_timestamp = None\<rparr>
                     :: (real, int) BudaMarketTradeList)
   \<and> append_raw Some (\<lambda>v. Some (real_of_int v))
         \<lparr>trade_list = RawList [], filter_timestamp = None\<rparr> [[1, 2, 3, 0], [5, 6]]
       = (\<lparr>trade_list = RawList [\<lparr>timestamp = 1, amount = 2, price = 3, direction = 0\<rparr>],
           filter_timestamp = None\<rparr>, Some IndexError)"
  by (simp add: is_resampled_def BudaMarketTradeEntry_init_def py_get_def append_raw_def)

section \<open>Theorems: the REST page and the trade message of Kraken\<close>

lemma py_get_minus_one: "xs \<noteq> [] \<Longrightarrow> py_get xs (- 1) = Inr (last xs)"
proof -
  assume ne: "xs \<noteq> []"
  then have "nat (int (length xs) + - 1) = length xs - 1"
    by (cases xs) auto
  moreover from ne have "Suc 0 \<le> length xs"
    by (cases xs) auto
  ultimately show ?thesis
    using ne by (simp add: py_get_def last_conv_nth)
qed

lemma py_get_minus_one_empty: "py_get [] (- 1) = Inl IndexError"
  by (simp add: py_get_def)

lemma sum_volume_foldl:
  "map (tuple_field to_float vi) entries = map Some vs \<Longrightarrow>
   sum_volume to_float vi entries acc = Inr (foldl (+) acc vs)"
proof (induction entries arbitrary: acc vs)
  case Nil
  then show ?case by simp
next
  case (Cons e es)
  then obtain v vs' where vs: "vs = v # vs'" by (cases vs) auto
  with Cons.prems have "tuple_field to_float vi e = Some v"
    and rest: "map (tuple_field to_float vi) es = map Some vs'" by auto
  then obtain j where "py_index e vi = Inr j" "to_float j = Some v"
    by (auto simp: tuple_field_def split: sum.splits)
  with Cons.IH [OF rest] vs show ?case by simp
qed

text \<open>
  C2, as the code has it. On a page that parses, with integer timestamps, the trailing
  candle is dropped exactly when its timestamp is greater than the commit boundary
  \<open>last\<close>; a trailing candle whose timestamp equals the boundary is kept.
\<close>

theorem parse_response_discard_rule:
  assumes "py_key response ''result'' = Inr res"
    and "py_key res (response_key mc) = Inr response_list"
    and "py_iter response_list = Inr rows"
    and "map_raising (mapper K) rows = Inr parsed"
    and "parsed \<noteq> []"
    and "py_key res ''last'' = Inr (JInt commit)"
    and "k_timestamp (last parsed) = JInt start"
  shows "parse_response_to_list K num_lt response (Some mc)
           = Inr (if commit < start then butlast parsed else parsed)"
  using assms by (simp add: parse_response_to_list_def py_get_minus_one number_lt_def)

theorem parse_response_discard_rule_witness:
  "parse_response_to_list spec_constants real_lt
     (JObj [(''result'', JObj [(''XXBTZUSD'', JArr [
                JArr [JInt 100, JStr ''1.0'', JStr ''2.0'', JStr ''0.5'', JStr ''1.5'', JStr ''7.0''],
                JArr [JInt 200, JStr ''1.5'', JStr ''2.5'', JStr ''1.0'', JStr ''2.0'', JStr ''8.0'']]),
              (''last'', JInt 100)])] :: real json)
     (Some \<lparr>subscription_pair = ''XBT/USD'', ohlc_pair = ''XBTUSD'',
            response_key = ''XXBTZUSD'', key = ''btc'', next_frame_ts = None\<rparr>)
   = Inr [\<lparr>k_open = JStr ''1.0'', k_high = JStr ''2.0'', k_low = JStr ''0.5'',
            k_close = JStr ''1.5'', k_volume = JStr ''7.0'', k_timestamp = JInt 100\<rparr>]"
  using parse_response_discard_rule
    [of "JObj [(''result'', JObj [(''XXBTZUSD'', JArr [
                JArr [JInt 100, JStr ''1.0'', JStr ''2.0'', JStr ''0.5'', JStr ''1.5'', JStr ''7.0''],
                JArr [JInt 200, JStr ''1.5'', JStr ''2.5'', JStr ''1.0'', JStr ''2.0'', JStr ''8.0'']]),
              (''last'', JInt 100)])] :: real json"
        "JObj [(''XXBTZUSD'', JArr [
                JArr [JInt 100, JStr ''1.0'', JStr ''2.0'', JStr ''0.5'', JStr ''1.5'', JStr ''7.0''],
                JArr [JInt 200, JStr ''1.5'', JStr ''2.5'', JStr ''1.0'', JStr ''2.0'', JStr ''8.0'']]),
              (''last'', JInt 100)]"
        "\<lparr>subscription_pair = ''XBT/USD'', ohlc_pair = ''XBTUSD'',
            response_key = ''XXBTZUSD'', key = ''btc'', next_frame_ts = None\<rparr>"
        "JArr [
                JArr [JInt 100, JStr ''1.0'', JStr ''2.0'', JStr ''0.5'', JStr ''1.5'', JStr ''7.0''],
                JArr [JInt 200, JStr ''1.5'', JStr ''2.5'', JStr ''1.0'', JStr ''2.0'', JStr ''8.0'']]"
        "[JArr [JInt 100, JStr ''1.0'', JStr ''2.0'', JStr ''0.5'', JStr ''1.5'', JStr ''7.0''],
                JArr [JInt 200, JStr ''1.5'', JStr ''2.5'', JStr ''1.0'', JStr ''2.0'', JStr ''8.0'']]"
        spec_constants
        "[\<lparr>k_open = JStr ''1.0'', k_high = JStr ''2.0'', k_low = JStr ''0.5'',
            k_close = JStr ''1.5'', k_volume = JStr ''7.0'', k_timestamp = JInt 100\<rparr>,
          \<lparr>k_open = JStr ''1.5'', k_high = JStr ''2.5'', k_low = JStr ''1.0'',
            k_close = JStr ''2.0'', k_volume = JStr ''8.0'', k_timestamp = JInt 200\<rparr>]"
        100 200 real_lt]
  by (simp add: spec_constants_def mapper_def py_get_def)

text \<open>
  C2 as stated fails at the boundary: the page with the timestamps 100, 200, 300 and
  \<open>last = 300\<close> keeps all three candles.
\<close>

theorem parse_response_boundary_counterexample:
  "parse_response_to_list spec_constants real_lt
     (JObj [(''error'', JArr []),
            (''result'', JObj [(''XXBTZUSD'', JArr [
                JArr [JInt 100, JStr ''1.0'', JStr ''2.0'', JStr ''0.5'', JStr ''1.5'', JStr ''7.0''],
                JArr [JInt 200, JStr ''1.5'', JStr ''2.5'', JStr ''1.0'', JStr ''2.0'', JStr ''8.0''],
                JArr [JInt 300, JStr ''2.0'', JStr ''3.0'', JStr ''1.5'', JStr ''2.5'', JStr ''9.0'']]),
              (''last'', JInt 300)])] :: real json)
     (Some \<lparr>subscription_pair = ''XBT/USD'', ohlc_pair = ''XBTUSD'',
            response_key = ''XXBTZUSD'', key = ''btc'', next_frame_ts = None\<rparr>)
   = Inr [\<lparr>k_open = JStr ''1.0'', k_high = JStr ''2.0'', k_low = JStr ''0.5'',
            k_close = JStr ''1.5'', k_volume = JStr ''7.0'', k_timestamp = JInt 100\<rparr>,
          \<lparr>k_open = JStr ''1.5'', k_high = JStr ''2.5'', k_low = JStr ''1.0'',
            k_close = JStr ''2.0'', k_volume = JStr ''8.0'', k_timestamp = JInt 200\<rparr>,
          \<lparr>k_open = JStr ''2.0'', k_high = JStr ''3.0'', k_low = JStr ''1.5'',
            k_close = JStr ''2.5'', k_volume = JStr ''9.0'', k_timestamp = JInt 300\<rparr>]"
  by (simp add: parse_response_to_list_def spec_constants_def mapper_def py_get_def
      number_lt_def)

text \<open>
  C8, as the code has it. For a trade message with a non-empty list of tuples whose
  fields convert, the decoded trade has the market of the message, the time and the price
  of the last tuple only, and as volume the sum of the volumes of all tuples, added from
  0 in the order of the message.
\<close>

theorem ticket_list_to_dict_last_trade:
  assumes "py_index socket_trade (TRADE_LIST K) = Inr (JArr tuples)"
    and "py_index socket_trade (MARKET_INDEX K) = Inr mk"
    and "market_mapper mk = Inr m"
    and "tuples \<noteq> []"
    and "tuple_field to_float (TIME_INDEX K) (last tuples) = Some ts"
    and "tuple_field to_float (PRICE_INDEX K) (last tuples) = Some pr"
    and "map (tuple_field to_float (VOLUME_INDEX K)) tuples = map Some vs"
  shows "ticket_list_to_dict K to_float socket_trade
           = Inr \<lparr>market = m, t_timestamp = ts, t_price = pr, t_volume = foldl (+) 0 vs\<rparr>"
proof -
  from assms(5) obtain tv where tv: "py_index (last tuples) (TIME_INDEX K) = Inr tv" "to_float tv = Some ts"
    by (auto simp: tuple_field_def split: sum.splits)
  from assms(6) obtain pv where pv: "py_index (last tuples) (PRICE_INDEX K) = Inr pv" "to_float pv = Some pr"
    by (auto simp: tuple_field_def split: sum.splits)
  show ?thesis
    using assms(1-4) tv pv sum_volume_foldl [OF assms(7), of 0]
    by (simp add: ticket_list_to_dict_def py_get_minus_one)
qed

theorem ticket_list_to_dict_last_trade_witness:
  "ticket_list_to_dict spec_constants float_of
     (JArr [JStr ''ETH/USD'',
            JArr [JArr [JFloat 100, JFloat 1, JFloat 10, JStr ''b''],
                  JArr [JFloat 90, JFloat 2, JFloat 11, JStr ''s'']]])
     = Inr \<lparr>market = ''eth'', t_timestamp = 11, t_price = 90, t_volume = 3\<rparr>"
  using ticket_list_to_dict_last_trade
    [of "JArr [JStr ''ETH/USD'',
            JArr [JArr [JFloat 100, JFloat 1, JFloat 10, JStr ''b''],
                  JArr [JFloat 90, JFloat 2, JFloat 11, JStr ''s'']]]"
        spec_constants
        "[JArr [JFloat 100, JFloat 1, JFloat 10, JStr ''b''],
                  JArr [JFloat 90, JFloat 2, JFloat 11, JStr ''s'']]"
        "JStr ''ETH/USD''" "''eth''" float_of 11 90 "[1, 2]"]
  by (simp add: spec_constants_def py_get_def float_of_def tuple_field_def)

text \<open>
  C8 as stated fails for the price: two messages that differ in the price and the time of
  their first tuple decode to the same trade, with the price 90 of the last tuple. This
  holds with the constants of either layout.
\<close>

theorem ticket_list_to_dict_counterexample:
  "ticket_list_to_dict spec_constants float_of
     (JArr [JStr ''XBT/USD'',
            JArr [JArr [JFloat 100, JFloat 1, JFloat 10, JStr ''b''],
                  JArr [JFloat 90, JFloat 2, JFloat 11, JStr ''s'']]])
     = Inr \<lparr>market = ''btc'', t_timestamp = 11, t_price = 90, t_volume = 3\<rparr>
   \<and> ticket_list_to_dict spec_constants float_of
     (JArr [JStr ''XBT/USD'',
            JArr [JArr [JFloat 500, JFloat 1, JFloat 5, JStr ''b''],
                  JArr [JFloat 90, JFloat 2, JFloat 11, JStr ''s'']]])
     = Inr \<lparr>market = ''btc'', t_timestamp = 11, t_price = 90, t_volume = 3\<rparr>
   \<and> ticket_list_to_dict wire_constants float_of
     (JArr [JInt 0,
            JArr [JArr [JFloat 100, JFloat 1, JFloat 10, JStr ''b''],
                  JArr [JFloat 90, JFloat 2, JFloat 11, JStr ''s'']],
            JStr ''trade'', JStr ''XBT/USD''])
     = Inr \<lparr>market = ''btc'', t_timestamp = 11, t_price = 90, t_volume = 3\<rparr>
   \<and> ticket_list_to_dict wire_constants float_of
     (JArr [JInt 0,
            JArr [JArr [JFloat 500, JFloat 1, JFloat 5, JStr ''b''],
                  JArr [JFloat 90, JFloat 2, JFloat 11, JStr ''s'']],
            JStr ''trade'', JStr ''XBT/USD''])
     = Inr \<lparr>market = ''btc'', t_timestamp = 11, t_price = 90, t_volume = 3\<rparr>"
  by (simp add: ticket_list_to_dict_def spec_constants_def wire_constants_def py_get_def
      float_of_def)

section \<open>Theorems: the socket handler\<close>

lemma exec_append: "exec loads (xs @ ys) s = exec loads ys (exec loads xs s)"
  by (induction xs arbitrary: s) auto

lemma forwarded_append:
  "forwarded loads (ps @ qs) = forwarded loads ps @ forwarded loads qs"
  by (induction ps) (simp_all add: forwarded_def map_filter_simps split: option.splits)

lemma forwarded_Nil: "forwarded loads [] = []"
  by (simp add: forwarded_def map_filter_simps)

lemma forwarded_single:
  "forwarded loads [p] =
     (case loads p of None \<Rightarrow> []
      | Some result \<Rightarrow> if is_list result then [result] else [])"
  by (simp add: forwarded_def map_filter_simps split: option.splits)

lemma step_forwards:
  "\<exists>ps. received (step loads a s) = received s @ ps
      \<and> delivered (step loads a s) = delivered s @ forwarded loads ps"
proof (cases a)
  case KillReq
  then show ?thesis
    by (simp add: kill_on_next_receiv_def forwarded_Nil)
next
  case (HandlerStep x)
  show ?thesis
  proof (cases "\<exists>p r. pc s = Receiving \<and> x = Received p r")
    case True
    then obtain p r where "pc s = Receiving" "x = Received p r" by blast
    then have "received (step loads a s) = received s @ [p]
        \<and> delivered (step loads a s) = delivered s @ forwarded loads [p]"
      using HandlerStep
      by (simp add: handler_step_def disconnect_def forwarded_single
          split: option.splits cb_result.splits)
    then show ?thesis by blast
  next
    case False
    then have "received (step loads a s) = received s @ []
        \<and> delivered (step loads a s) = delivered s @ forwarded loads []"
      using HandlerStep
      by (auto simp: handler_step_def disconnect_def forwarded_Nil
          split: pc.splits io.splits)
    then show ?thesis by blast
  qed
qed

lemma exec_forwards:
  "\<exists>ps. received (exec loads sched s) = received s @ ps
      \<and> delivered (exec loads sched s) = delivered s @ forwarded loads ps"
proof (induction sched arbitrary: s)
  case Nil
  show ?case by (simp add: forwarded_Nil)
next
  case (Cons a sched)
  from step_forwards [of loads a s] obtain ps where
    ps: "received (step loads a s) = received s @ ps"
        "delivered (step loads a s) = delivered s @ forwarded loads ps" by blast
  from Cons.IH [of "step loads a s"] obtain qs where
    qs: "received (exec loads sched (step loads a s)) = received (step loads a s) @ qs"
        "delivered (exec loads sched (step loads a s))
           = delivered (step loads a s) @ forwarded loads qs" by blast
  from ps qs have "received (exec loads (a # sched) s) = received s @ (ps @ qs)
      \<and> delivered (exec loads (a # sched) s) = delivered s @ forwarded loads (ps @ qs)"
    by (simp add: forwarded_append)
  then show ?case by blast
qed

lemma step_decoded_other:
  assumes "pc s = Receiving" and "loads p = Some result" and "\<not> is_list result"
  shows "step loads (HandlerStep (Received p r)) s
           = s\<lparr>received := received s @ [p], pc := Managing\<rparr>"
  using assms by (simp add: handler_step_def)

text \<open>
  C3, as the code has it. Over every schedule, the messages handed to the callback are
  exactly the payloads returned by \<open>recv\<close> that decode to a JSON list, each once and in
  the order of receipt. A payload that decodes to anything else is not handed to the
  callback and does not end the connection: the step changes nothing but the record of
  receipts and the control point, which goes back to the top of the receive loop.
\<close>

theorem exec_forwards_lists_in_order:
  "(\<exists>ps. received (exec loads sched s) = received s @ ps
       \<and> delivered (exec loads sched s) = delivered s @ forwarded loads ps)
   \<and> (pc s = Receiving \<and> loads p = Some result \<and> \<not> is_list result \<longrightarrow>
        step loads (HandlerStep (Received p r)) s
          = s\<lparr>received := received s @ [p], pc := Managing\<rparr>)"
  using exec_forwards [of loads sched s] step_decoded_other [of s loads p result r]
  by blast

lemma exec_replicate_KillReq:
  "exec loads (replicate n KillReq) s = (if n = 0 then s else s\<lparr>kill_thread := True\<rparr>)"
proof (induction n arbitrary: s)
  case 0
  show ?case by simp
next
  case (Suc n)
  show ?case by (simp add: Suc.IH kill_on_next_receiv_def)
qed

lemma step_keeps_kill:
  "kill_thread (step loads a s)" if "kill_thread s"
proof (cases a)
  case KillReq
  with that show ?thesis
    by (simp add: kill_on_next_receiv_def )
next
  case (HandlerStep x)
  show ?thesis
  proof (cases "pc s")
    case Idle
    with that HandlerStep show ?thesis
      by (simp add: handler_step_def disconnect_def 
          split: io.splits option.splits cb_result.splits)
  next
    case Loop
    with that HandlerStep show ?thesis
      by (simp add: handler_step_def disconnect_def 
          split: io.splits option.splits cb_result.splits)
  next
    case Connecting
    with that HandlerStep show ?thesis
      by (simp add: handler_step_def disconnect_def 
          split: io.splits option.splits cb_result.splits)
  next
    case Managing
    with that HandlerStep show ?thesis
      by (simp add: handler_step_def disconnect_def 
          split: io.splits option.splits cb_result.splits)
  next
    case Receiving
    with that HandlerStep show ?thesis
      by (simp add: handler_step_def disconnect_def 
          split: io.splits option.splits cb_result.splits)
  next
    case AfterLoop
    with that HandlerStep show ?thesis
      by (simp add: handler_step_def disconnect_def 
          split: io.splits option.splits cb_result.splits)
  next
    case Finished
    with that HandlerStep show ?thesis
      by (simp add: handler_step_def disconnect_def 
          split: io.splits option.splits cb_result.splits)
  next
    case (Raised e)
    with that HandlerStep show ?thesis
      by (simp add: handler_step_def disconnect_def 
          split: io.splits option.splits cb_result.splits)
  qed
qed

lemma step_messages_left:
  "length (delivered (step loads a s)) + messages_left (step loads a s)
     \<le> length (delivered s) + messages_left s" if "kill_thread s"
proof (cases a)
  case KillReq
  with that show ?thesis
    by (simp add: kill_on_next_receiv_def messages_left_def)
next
  case (HandlerStep x)
  show ?thesis
  proof (cases "pc s")
    case Idle
    with that HandlerStep show ?thesis
      by (simp add: handler_step_def disconnect_def messages_left_def
          split: io.splits option.splits cb_result.splits)
  next
    case Loop
    with that HandlerStep show ?thesis
      by (simp add: handler_step_def disconnect_def messages_left_def
          split: io.splits option.splits cb_result.splits)
  next
    case Connecting
    with that HandlerStep show ?thesis
      by (simp add: handler_step_def disconnect_def messages_left_def
          split: io.splits option.splits cb_result.splits)
  next
    case Managing
    with that HandlerStep show ?thesis
      by (simp add: handler_step_def disconnect_def messages_left_def
          split: io.splits option.splits cb_result.splits)
  next
    case Receiving
    with that HandlerStep show ?thesis
      by (simp add: handler_step_def disconnect_def messages_left_def
          split: io.splits option.splits cb_result.splits)
  next
    case AfterLoop
    with that HandlerStep show ?thesis
      by (simp add: handler_step_def disconnect_def messages_left_def
          split: io.splits option.splits cb_result.splits)
  next
    case Finished
    with that HandlerStep show ?thesis
      by (simp add: handler_step_def disconnect_def messages_left_def
          split: io.splits option.splits cb_result.splits)
  next
    case (Raised e)
    with that HandlerStep show ?thesis
      by (simp add: handler_step_def disconnect_def messages_left_def
          split: io.splits option.splits cb_result.splits)
  qed
qed

lemma step_handshakes_left:
  "handshakes (step loads a s) + handshakes_left (step loads a s)
     \<le> handshakes s + handshakes_left s" if "kill_thread s"
proof (cases a)
  case KillReq
  with that show ?thesis
    by (auto simp add: kill_on_next_receiv_def handshakes_left_def)
next
  case (HandlerStep x)
  show ?thesis
  proof (cases "pc s")
    case Idle
    with that HandlerStep show ?thesis
      by (auto simp add: handler_step_def disconnect_def handshakes_left_def
          split: io.splits option.splits cb_result.splits)
  next
    case Loop
    with that HandlerStep show ?thesis
      by (auto simp add: handler_step_def disconnect_def handshakes_left_def
          split: io.splits option.splits cb_result.splits)
  next
    case Connecting
    with that HandlerStep show ?thesis
      by (auto simp add: handler_step_def disconnect_def handshakes_left_def
          split: io.splits option.splits cb_result.splits)
  next
    case Managing
    with that HandlerStep show ?thesis
      by (auto simp add: handler_step_def disconnect_def handshakes_left_def
          split: io.splits option.splits cb_result.splits)
  next
    case Receiving
    with that HandlerStep show ?thesis
      by (auto simp add: handler_step_def disconnect_def handshakes_left_def
          split: io.splits option.splits cb_result.splits)
  next
    case AfterLoop
    with that HandlerStep show ?thesis
      by (auto simp add: handler_step_def disconnect_def handshakes_left_def
          split: io.splits option.splits cb_result.splits)
  next
    case Finished
    with that HandlerStep show ?thesis
      by (auto simp add: handler_step_def disconnect_def handshakes_left_def
          split: io.splits option.splits cb_result.splits)
  next
    case (Raised e)
    with that HandlerStep show ?thesis
      by (auto simp add: handler_step_def disconnect_def handshakes_left_def
          split: io.splits option.splits cb_result.splits)
  qed
qed

lemma exec_messages_left:
  "kill_thread s \<Longrightarrow>
   length (delivered (exec loads sched s)) + messages_left (exec loads sched s)
     \<le> length (delivered s) + messages_left s"
proof (induction sched arbitrary: s)
  case Nil
  show ?case by simp
next
  case (Cons a sched)
  from Cons.prems have k: "kill_thread (step loads a s)" by (rule step_keeps_kill)
  from Cons.IH [OF k] step_messages_left [OF Cons.prems, of loads a]
  show ?case by simp
qed

lemma exec_handshakes_left:
  "kill_thread s \<Longrightarrow>
   handshakes (exec loads sched s) + handshakes_left (exec loads sched s)
     \<le> handshakes s + handshakes_left s"
proof (induction sched arbitrary: s)
  case Nil
  show ?case by simp
next
  case (Cons a sched)
  from Cons.prems have k: "kill_thread (step loads a s)" by (rule step_keeps_kill)
  from Cons.IH [OF k] step_handshakes_left [OF Cons.prems, of loads a]
  show ?case by simp
qed

lemma step_connected:
  "handshakes (step loads a s) = handshakes s
   \<and> (connected (step loads a s) \<or> exited (pc (step loads a s)))"
  if "connected s \<and> \<not> io_fails loads a"
proof (cases a)
  case KillReq
  with that show ?thesis
    by (simp add: kill_on_next_receiv_def connected_def)
next
  case (HandlerStep x)
  show ?thesis
  proof (cases "pc s")
    case Idle
    with that HandlerStep show ?thesis
      by (cases x) (auto simp add: handler_step_def disconnect_def connected_def
          split: option.splits cb_result.splits)
  next
    case Loop
    with that HandlerStep show ?thesis
      by (cases x) (auto simp add: handler_step_def disconnect_def connected_def
          split: option.splits cb_result.splits)
  next
    case Connecting
    with that HandlerStep show ?thesis
      by (cases x) (auto simp add: handler_step_def disconnect_def connected_def
          split: option.splits cb_result.splits)
  next
    case Managing
    with that HandlerStep show ?thesis
      by (cases x) (auto simp add: handler_step_def disconnect_def connected_def
          split: option.splits cb_result.splits)
  next
    case Receiving
    with that HandlerStep show ?thesis
      by (cases x) (auto simp add: handler_step_def disconnect_def connected_def
          split: option.splits cb_result.splits)
  next
    case AfterLoop
    with that HandlerStep show ?thesis
      by (cases x) (auto simp add: handler_step_def disconnect_def connected_def
          split: option.splits cb_result.splits)
  next
    case Finished
    with that HandlerStep show ?thesis
      by (cases x) (auto simp add: handler_step_def disconnect_def connected_def
          split: option.splits cb_result.splits)
  next
    case (Raised e)
    with that HandlerStep show ?thesis
      by (cases x) (auto simp add: handler_step_def disconnect_def connected_def
          split: option.splits cb_result.splits)
  qed
qed

lemma step_exited:
  "handshakes (step loads a s) = handshakes s \<and> exited (pc (step loads a s))"
  if "exited (pc s)"
proof (cases a)
  case KillReq
  with that show ?thesis
    by (simp add: kill_on_next_receiv_def )
next
  case (HandlerStep x)
  show ?thesis
  proof (cases "pc s")
    case Idle
    with that HandlerStep show ?thesis
      by (simp add: handler_step_def disconnect_def 
          split: io.splits option.splits cb_result.splits)
  next
    case Loop
    with that HandlerStep show ?thesis
      by (simp add: handler_step_def disconnect_def 
          split: io.splits option.splits cb_result.splits)
  next
    case Connecting
    with that HandlerStep show ?thesis
      by (simp add: handler_step_def disconnect_def 
          split: io.splits option.splits cb_result.splits)
  next
    case Managing
    with that HandlerStep show ?thesis
      by (simp add: handler_step_def disconnect_def 
          split: io.splits option.splits cb_result.splits)
  next
    case Receiving
    with that HandlerStep show ?thesis
      by (simp add: handler_step_def disconnect_def 
          split: io.splits option.splits cb_result.splits)
  next
    case AfterLoop
    with that HandlerStep show ?thesis
      by (simp add: handler_step_def disconnect_def 
          split: io.splits option.splits cb_result.splits)
  next
    case Finished
    with that HandlerStep show ?thesis
      by (simp add: handler_step_def disconnect_def 
          split: io.splits option.splits cb_result.splits)
  next
    case (Raised e)
    with that HandlerStep show ?thesis
      by (simp add: handler_step_def disconnect_def 
          split: io.splits option.splits cb_result.splits)
  qed
qed

lemma exec_connected:
  "connected s \<or> exited (pc s) \<Longrightarrow> \<forall>a \<in> set sched. \<not> io_fails loads a \<Longrightarrow>
   handshakes (exec loads sched s) = handshakes s"
proof (induction sched arbitrary: s)
  case Nil
  show ?case by simp
next
  case (Cons a sched)
  from Cons.prems have nf: "\<not> io_fails loads a" and rest: "\<forall>a \<in> set sched. \<not> io_fails loads a"
    by auto
  from Cons.prems(1) nf have
    "handshakes (step loads a s) = handshakes s
     \<and> (connected (step loads a s) \<or> exited (pc (step loads a s)))"
    using step_connected [of s loads a] step_exited [of s loads a] by blast
  with Cons.IH [OF _ rest] show ?case by simp
qed

text \<open>
  C4, as the code has it. Once the kill flag is set, at most one more message is handed
  to the callback. The flag is read only at the top of the receive loop, so handshakes
  can still be attempted: at most \<open>reconnect_attempts_limit - reconnect_attempts\<close> of
  them, and none from a connected handler as long as no receive, decoding or callback
  fails.
\<close>

theorem kill_one_more_message:
  assumes "kill_thread s"
  shows "length (delivered (exec loads sched s)) \<le> length (delivered s) + 1
    \<and> handshakes (exec loads sched s)
        \<le> handshakes s + nat (reconnect_attempts_limit s - reconnect_attempts s)
    \<and> (connected s \<and> (\<forall>a \<in> set sched. \<not> io_fails loads a)
         \<longrightarrow> handshakes (exec loads sched s) = handshakes s)"
proof -
  have "messages_left s \<le> 1"
    by (simp add: messages_left_def)
  with exec_messages_left [OF assms, of loads sched]
  have a: "length (delivered (exec loads sched s)) \<le> length (delivered s) + 1"
    by simp
  have "handshakes_left s \<le> nat (reconnect_attempts_limit s - reconnect_attempts s)"
    by (simp add: handshakes_left_def)
  with exec_handshakes_left [OF assms, of loads sched]
  have b: "handshakes (exec loads sched s)
        \<le> handshakes s + nat (reconnect_attempts_limit s - reconnect_attempts s)"
    by simp
  from a b exec_connected [of s sched loads] show ?thesis by blast
qed

text \<open>
  C6, as the code has it. A handshake attempt starts at the loop test with no socket and
  attempts left. If it fails, the counter ends one higher, an error is logged and no
  alert is sent; if it succeeds, the counter is 0 and the socket is stored. Kill requests
  in between change nothing of this.
\<close>

theorem handshake_attempt_counter:
  assumes "pc s = Loop" and "ws s = None"
    and "reconnect_attempts s < reconnect_attempts_limit s"
  shows "reconnect_attempts
           (exec loads (HandlerStep a # replicate n KillReq @ [HandlerStep ConnFail]) s)
           = reconnect_attempts s + 1
    \<and> alerts (exec loads (HandlerStep a # replicate n KillReq @ [HandlerStep ConnFail]) s)
           = alerts s
    \<and> logged_errors
           (exec loads (HandlerStep a # replicate n KillReq @ [HandlerStep ConnFail]) s)
           = logged_errors s + 1
    \<and> pc (exec loads (HandlerStep a # replicate n KillReq @ [HandlerStep ConnFail]) s) = Loop
    \<and> reconnect_attempts
           (exec loads (HandlerStep a # replicate n KillReq @ [HandlerStep ConnOk]) s) = 0
    \<and> ws (exec loads (HandlerStep a # replicate n KillReq @ [HandlerStep ConnOk]) s) \<noteq> None
    \<and> alerts (exec loads (HandlerStep a # replicate n KillReq @ [HandlerStep ConnOk]) s)
           = alerts s"
  using assms
  by (simp add: exec_append exec_replicate_KillReq handler_step_def)

lemma connect_as_new_thread_started:
  "started s \<Longrightarrow>
     snd (connect_as_new_thread p cb s) = Some RuntimeError
     \<and> pc (fst (connect_as_new_thread p cb s)) = pc s
     \<and> delivered (fst (connect_as_new_thread p cb s)) = delivered s"
  by (simp add: connect_as_new_thread_def init_args_def)

lemma connect_on_this_thread_state:
  "pc (connect_on_this_thread p cb s) = Loop
   \<and> \<not> kill_thread (connect_on_this_thread p cb s)
   \<and> reconnect_attempts (connect_on_this_thread p cb s) = 0
   \<and> 0 < reconnect_attempts_limit (connect_on_this_thread p cb s)
   \<and> ws (connect_on_this_thread p cb s) = ws s
   \<and> received (connect_on_this_thread p cb s) = received s
   \<and> delivered (connect_on_this_thread p cb s) = delivered s"
  by (simp add: connect_on_this_thread_def run_def init_args_def)

lemma receive_one:
  assumes "pc t = Managing" and "\<not> kill_thread t"
  shows "delivered (exec loads [HandlerStep b, HandlerStep (Received m Returns)] t)
           = delivered t @ forwarded loads [m]"
  using assms
  by (simp add: handler_step_def forwarded_single disconnect_def split: option.splits)

lemma restart_without_socket:
  assumes "ws s = None"
  shows "delivered (exec loads [HandlerStep a, HandlerStep ConnOk, HandlerStep b,
                               HandlerStep (Received m Returns)]
                     (connect_on_this_thread p cb s))
          = delivered s @ forwarded loads [m]"
proof -
  let ?t = "exec loads [HandlerStep a, HandlerStep ConnOk] (connect_on_this_thread p cb s)"
  from assms connect_on_this_thread_state [of p cb s]
  have "pc ?t = Managing \<and> \<not> kill_thread ?t \<and> delivered ?t = delivered s"
    by (simp add: handler_step_def)
  with receive_one [of ?t loads b m] show ?thesis
    by simp
qed

lemma restart_with_socket:
  assumes "ws s \<noteq> None"
  shows "delivered (exec loads [HandlerStep a, HandlerStep b,
                               HandlerStep (Received m Returns)]
                     (connect_on_this_thread p cb s))
          = delivered s @ forwarded loads [m]"
proof -
  let ?t = "exec loads [HandlerStep a] (connect_on_this_thread p cb s)"
  from assms connect_on_this_thread_state [of p cb s]
  have "pc ?t = Managing \<and> \<not> kill_thread ?t \<and> delivered ?t = delivered s"
    by (simp add: handler_step_def)
  with receive_one [of ?t loads b m] show ?thesis
    by simp
qed

text \<open>
  C7, as the code has it. An instance that was started as a thread cannot be started as a
  thread again: \<open>connect_as_new_thread\<close> raises \<open>RuntimeError\<close> and runs nothing. But
  \<open>connect_on_this_thread\<close> clears the kill flag, resets the counter and enters the loop
  again on the same instance, which connects (or goes on with the socket it still holds)
  and hands the next list message to the callback.
\<close>

theorem connect_on_this_thread_reuse:
  "(started s \<longrightarrow>
      snd (connect_as_new_thread p cb s) = Some RuntimeError
      \<and> pc (fst (connect_as_new_thread p cb s)) = pc s
      \<and> delivered (fst (connect_as_new_thread p cb s)) = delivered s)
   \<and> pc (connect_on_this_thread p cb s) = Loop
   \<and> \<not> kill_thread (connect_on_this_thread p cb s)
   \<and> reconnect_attempts (connect_on_this_thread p cb s) = 0
   \<and> (ws s = None \<longrightarrow>
        delivered (exec loads [HandlerStep a, HandlerStep ConnOk, HandlerStep b,
                               HandlerStep (Received m Returns)]
                     (connect_on_this_thread p cb s))
          = delivered s @ forwarded loads [m])
   \<and> (ws s \<noteq> None \<longrightarrow>
        delivered (exec loads [HandlerStep a, HandlerStep b,
                               HandlerStep (Received m Returns)]
                     (connect_on_this_thread p cb s))
          = delivered s @ forwarded loads [m])"
  using connect_as_new_thread_started [of s p cb] connect_on_this_thread_state [of p cb s]
    restart_without_socket [of s loads a b m p cb] restart_with_socket [of s loads a b m p cb]
  by blast

lemmas example_simps =
  handler_step_def disconnect_def kill_on_next_receiv_def connect_on_this_thread_def
  run_def init_args_def KrakenSocketHandler_init_def loads_example_def

theorem exec_forwards_lists_in_order_witness:
  "delivered (exec loads_example
      [HandlerStep Quiet, HandlerStep ConnOk, HandlerStep Quiet,
       HandlerStep (Received ''[1]'' Returns), HandlerStep Quiet,
       HandlerStep (Received ''{}'' Returns), HandlerStep Quiet,
       HandlerStep (Received ''[2]'' Returns)]
      (connect_on_this_thread [''XBT/USD''] (0::nat) KrakenSocketHandler_init))
   = [JArr [JInt 1], JArr [JInt 2]]
   \<and> pc (exec loads_example [HandlerStep Quiet, HandlerStep ConnOk, HandlerStep Quiet]
          (connect_on_this_thread [''XBT/USD''] (0::nat) KrakenSocketHandler_init)) = Receiving
   \<and> loads_example ''{}'' = Some (JObj [])
   \<and> \<not> is_list (JObj [] :: real json)
   \<and> ws (step loads_example (HandlerStep (Received ''{}'' Returns))
          (exec loads_example [HandlerStep Quiet, HandlerStep ConnOk, HandlerStep Quiet]
            (connect_on_this_thread [''XBT/USD''] (0::nat) KrakenSocketHandler_init))) = Some 1
   \<and> pc (step loads_example (HandlerStep (Received ''{}'' Returns))
          (exec loads_example [HandlerStep Quiet, HandlerStep ConnOk, HandlerStep Quiet]
            (connect_on_this_thread [''XBT/USD''] (0::nat) KrakenSocketHandler_init))) = Managing"
  using exec_forwards_lists_in_order [of loads_example
      "[HandlerStep Quiet, HandlerStep ConnOk, HandlerStep Quiet,
       HandlerStep (Received ''[1]'' Returns), HandlerStep Quiet,
       HandlerStep (Received ''{}'' Returns), HandlerStep Quiet,
       HandlerStep (Received ''[2]'' Returns)]"
      "connect_on_this_thread [''XBT/USD''] (0::nat) KrakenSocketHandler_init"]
    exec_forwards_lists_in_order [of loads_example "[]"
      "exec loads_example [HandlerStep Quiet, HandlerStep ConnOk, HandlerStep Quiet]
         (connect_on_this_thread [''XBT/USD''] (0::nat) KrakenSocketHandler_init)"
      "''{}''" "JObj []" Returns]
  by (simp add: example_simps)

text \<open>
  C3 as stated fails: a payload that decodes to a dict is received on a connected
  handler and is not handed to the callback; the handler stays connected.
\<close>

theorem decoded_dict_not_forwarded_counterexample:
  "loads_example ''{}'' = Some (JObj [])
   \<and> received (exec loads_example
        [HandlerStep Quiet, HandlerStep ConnOk, HandlerStep Quiet,
         HandlerStep (Received ''{}'' Returns)]
        (connect_on_this_thread [''XBT/USD''] (0::nat) KrakenSocketHandler_init)) = [''{}'']
   \<and> delivered (exec loads_example
        [HandlerStep Quiet, HandlerStep ConnOk, HandlerStep Quiet,
         HandlerStep (Received ''{}'' Returns)]
        (connect_on_this_thread [''XBT/USD''] (0::nat) KrakenSocketHandler_init)) = []
   \<and> pc (exec loads_example
        [HandlerStep Quiet, HandlerStep ConnOk, HandlerStep Quiet,
         HandlerStep (Received ''{}'' Returns)]
        (connect_on_this_thread [''XBT/USD''] (0::nat) KrakenSocketHandler_init)) = Managing"
  by (simp add: example_simps)

theorem kill_one_more_message_witness:
  "kill_thread (exec loads_example
        [HandlerStep Quiet, HandlerStep ConnOk, HandlerStep Quiet, KillReq]
        (connect_on_this_thread [''XBT/USD''] (0::nat) KrakenSocketHandler_init))
   \<and> connected (exec loads_example
        [HandlerStep Quiet, HandlerStep ConnOk, HandlerStep Quiet, KillReq]
        (connect_on_this_thread [''XBT/USD''] (0::nat) KrakenSocketHandler_init))
   \<and> \<not> io_fails loads_example (HandlerStep (Received ''[1]'' Returns))
   \<and> \<not> io_fails loads_example (HandlerStep Quiet)
   \<and> \<not> io_fails loads_example (HandlerStep (Received ''[2]'' Returns))
   \<and> length (delivered (exec loads_example
        [HandlerStep (Received ''[1]'' Returns), HandlerStep Quiet,
         HandlerStep (Received ''[2]'' Returns)]
        (exec loads_example
          [HandlerStep Quiet, HandlerStep ConnOk, HandlerStep Quiet, KillReq]
          (connect_on_this_thread [''XBT/USD''] (0::nat) KrakenSocketHandler_init)))) = 1
   \<and> handshakes (exec loads_example
        [HandlerStep (Received ''[1]'' Returns), HandlerStep Quiet,
         HandlerStep (Received ''[2]'' Returns)]
        (exec loads_example
          [HandlerStep Quiet, HandlerStep ConnOk, HandlerStep Quiet, KillReq]
          (connect_on_this_thread [''XBT/USD''] (0::nat) KrakenSocketHandler_init))) = 1"
  using kill_one_more_message [of
      "exec loads_example
        [HandlerStep Quiet, HandlerStep ConnOk, HandlerStep Quiet, KillReq]
        (connect_on_this_thread [''XBT/USD''] (0::nat) KrakenSocketHandler_init)"
      loads_example
      "[HandlerStep (Received ''[1]'' Returns), HandlerStep Quiet,
         HandlerStep (Received ''[2]'' Returns)]"]
  by (simp add: example_simps connected_def)

text \<open>
  C4 as stated fails: the flag is set while the handler waits in \<open>recv\<close>, \<open>recv\<close> fails,
  and the loop makes a second handshake attempt.
\<close>

theorem handshake_after_kill_counterexample:
  "kill_thread (exec loads_example
        [HandlerStep Quiet, HandlerStep ConnOk, HandlerStep Quiet, KillReq]
        (connect_on_this_thread [''XBT/USD''] (0::nat) KrakenSocketHandler_init))
   \<and> handshakes (exec loads_example
        [HandlerStep Quiet, HandlerStep ConnOk, HandlerStep Quiet, KillReq]
        (connect_on_this_thread [''XBT/USD''] (0::nat) KrakenSocketHandler_init)) = 1
   \<and> handshakes (exec loads_example
        [HandlerStep Quiet, HandlerStep ConnOk, HandlerStep Quiet, KillReq,
         HandlerStep RecvFail, HandlerStep Quiet]
        (connect_on_this_thread [''XBT/USD''] (0::nat) KrakenSocketHandler_init)) = 2
   \<and> pc (exec loads_example
        [HandlerStep Quiet, HandlerStep ConnOk, HandlerStep Quiet, KillReq,
         HandlerStep RecvFail, HandlerStep Quiet]
        (connect_on_this_thread [''XBT/USD''] (0::nat) KrakenSocketHandler_init)) = Connecting"
  by (simp add: example_simps)

theorem handshake_attempt_counter_witness:
  "pc (connect_on_this_thread [''XBT/USD''] (0::nat) KrakenSocketHandler_init) = Loop
   \<and> reconnect_attempts (exec loads_example
        (HandlerStep Quiet # replicate 0 KillReq @ [HandlerStep ConnFail])
        (connect_on_this_thread [''XBT/USD''] (0::nat) KrakenSocketHandler_init)) = 1
   \<and> reconnect_attempts (exec loads_example
        (HandlerStep Quiet # replicate 0 KillReq @ [HandlerStep ConnOk])
        (connect_on_this_thread [''XBT/USD''] (0::nat) KrakenSocketHandler_init)) = 0"
  using handshake_attempt_counter [of
      "connect_on_this_thread [''XBT/USD''] (0::nat) KrakenSocketHandler_init"
      loads_example Quiet 0]
  by (simp add: example_simps)

text \<open>
  C6 as stated fails: after a failed handshake the list of alerts is empty; the failure
  is logged only.
\<close>

theorem failed_handshake_no_alert_counterexample:
  "alerts (exec loads_example [HandlerStep Quiet, HandlerStep ConnFail]
        (connect_on_this_thread [''XBT/USD''] (0::nat) KrakenSocketHandler_init)) = []
   \<and> logged_errors (exec loads_example [HandlerStep Quiet, HandlerStep ConnFail]
        (connect_on_this_thread [''XBT/USD''] (0::nat) KrakenSocketHandler_init)) = 1
   \<and> reconnect_attempts (exec loads_example [HandlerStep Quiet, HandlerStep ConnFail]
        (connect_on_this_thread [''XBT/USD''] (0::nat) KrakenSocketHandler_init)) = 1"
  by (simp add: example_simps)

theorem connect_on_this_thread_reuse_witness:
  "ws (exec loads_example
        [HandlerStep Quiet, HandlerStep ConnFail, HandlerStep Quiet, HandlerStep ConnFail,
         HandlerStep Quiet, HandlerStep ConnFail, HandlerStep Quiet, HandlerStep Quiet]
        (connect_on_this_thread [''XBT/USD''] (0::nat) KrakenSocketHandler_init)) = None
   \<and> delivered (exec loads_example
        [HandlerStep Quiet, HandlerStep ConnOk, HandlerStep Quiet,
         HandlerStep (Received ''[1]'' Returns)]
        (connect_on_this_thread [''XBT/USD''] 1
          (exec loads_example
            [HandlerStep Quiet, HandlerStep ConnFail, HandlerStep Quiet, HandlerStep ConnFail,
             HandlerStep Quiet, HandlerStep ConnFail, HandlerStep Quiet, HandlerStep Quiet]
            (connect_on_this_thread [''XBT/USD''] (0::nat) KrakenSocketHandler_init))))
       = [JArr [JInt 1]]
   \<and> ws (exec loads_example
        [HandlerStep Quiet, HandlerStep ConnOk, KillReq, HandlerStep Quiet]
        (connect_on_this_thread [''XBT/USD''] (0::nat) KrakenSocketHandler_init)) = Some 1
   \<and> pc (exec loads_example
        [HandlerStep Quiet, HandlerStep ConnOk, KillReq, HandlerStep Quiet]
        (connect_on_this_thread [''XBT/USD''] (0::nat) KrakenSocketHandler_init))
       = Raised TypeError
   \<and> delivered (exec loads_example
        [HandlerStep Quiet, HandlerStep Quiet, HandlerStep (Received ''[2]'' Returns)]
        (connect_on_this_thread [''XBT/USD''] 1
          (exec loads_example
            [HandlerStep Quiet, HandlerStep ConnOk, KillReq, HandlerStep Quiet]
            (connect_on_this_thread [''XBT/USD''] (0::nat) KrakenSocketHandler_init))))
       = [JArr [JInt 2]]
   \<and> started (fst (connect_as_new_thread [''XBT/USD''] (0::nat)
                      (KrakenSocketHandler_init :: (real, nat) KrakenSocketHandler)))
   \<and> snd (connect_as_new_thread [''XBT/USD''] 1
            (fst (connect_as_new_thread [''XBT/USD''] (0::nat)
                      (KrakenSocketHandler_init :: (real, nat) KrakenSocketHandler))))
       = Some RuntimeError"
  using connect_on_this_thread_reuse [of
      "exec loads_example
        [HandlerStep Quiet, HandlerStep ConnFail, HandlerStep Quiet, HandlerStep ConnFail,
         HandlerStep Quiet, HandlerStep ConnFail, HandlerStep Quiet, HandlerStep Quiet]
        (connect_on_this_thread [''XBT/USD''] (0::nat) KrakenSocketHandler_init)"
      "[''XBT/USD'']" 1 loads_example Quiet Quiet "''[1]''"]
    connect_on_this_thread_reuse [of
      "exec loads_example
        [HandlerStep Quiet, HandlerStep ConnOk, KillReq, HandlerStep Quiet]
        (connect_on_this_thread [''XBT/USD''] (0::nat) KrakenSocketHandler_init)"
      "[''XBT/USD'']" 1 loads_example Quiet Quiet "''[2]''"]
    connect_on_this_thread_reuse [of
      "fst (connect_as_new_thread [''XBT/USD''] (0::nat)
                      (KrakenSocketHandler_init :: (real, nat) KrakenSocketHandler))"
      "[''XBT/USD'']" 1 loads_example Quiet Quiet "''[2]''"]
  by (simp add: example_simps connect_as_new_thread_def)

text \<open>
  C7 as stated fails: an instance whose loop has ended by exhausting three attempts
  is run again by \<open>connect_on_this_thread\<close>, connects and delivers a message.
\<close>

theorem restart_after_exit_counterexample:
  "pc (exec loads_example
        [HandlerStep Quiet, HandlerStep ConnFail, HandlerStep Quiet, HandlerStep ConnFail,
         HandlerStep Quiet, HandlerStep ConnFail, HandlerStep Quiet, HandlerStep Quiet]
        (connect_on_this_thread [''XBT/USD''] (0::nat) KrakenSocketHandler_init)) = Finished
   \<and> alerts (exec loads_example
        [HandlerStep Quiet, HandlerStep ConnFail, HandlerStep Quiet, HandlerStep ConnFail,
         HandlerStep Quiet, HandlerStep ConnFail, HandlerStep Quiet, HandlerStep Quiet]
        (connect_on_this_thread [''XBT/USD''] (0::nat) KrakenSocketHandler_init))
       = [MaxAttemptsAlert]
   \<and> pc (exec loads_example
        [HandlerStep Quiet, HandlerStep ConnOk, HandlerStep Quiet,
         HandlerStep (Received ''[1]'' Returns)]
        (connect_on_this_thread [''XBT/USD''] 1
          (exec loads_example
            [HandlerStep Quiet, HandlerStep ConnFail, HandlerStep Quiet, HandlerStep ConnFail,
             HandlerStep Quiet, HandlerStep ConnFail, HandlerStep Quiet, HandlerStep Quiet]
            (connect_on_this_thread [''XBT/USD''] (0::nat) KrakenSocketHandler_init))))
       = Managing
   \<and> delivered (exec loads_example
        [HandlerStep Quiet, HandlerStep ConnOk, HandlerStep Quiet,
         HandlerStep (Received ''[1]'' Returns)]
        (connect_on_this_thread [''XBT/USD''] 1
          (exec loads_example
            [HandlerStep Quiet, HandlerStep ConnFail, HandlerStep Quiet, HandlerStep ConnFail,
             HandlerStep Quiet, HandlerStep ConnFail, HandlerStep Quiet, HandlerStep Quiet]
            (connect_on_this_thread [''XBT/USD''] (0::nat) KrakenSocketHandler_init))))
       = [JArr [JInt 1]]"
  by (simp add: example_simps)

section \<open>Theorems: resampling and merging\<close>

lemma hour_ms_pos: "0 < hour_ms"
  by (simp add: hour_ms_def)

lemma fill_from_date: "date (fill_from p r) = date r"
  by (simp add: fill_from_def)

lemma fill_from_empty:
  assumes "c_open r = None" "c_high r = None" "c_low r = None" "c_close r = None"
  shows "c_open (fill_from p r) = c_open p \<and> c_high (fill_from p r) = c_high p
       \<and> c_low (fill_from p r) = c_low p \<and> c_close (fill_from p r) = c_close p"
  using assms by (simp add: fill_from_def)

lemma fill_from_volume: "c_volume r = Some v \<Longrightarrow> c_volume (fill_from p r) = Some v"
  by (simp add: fill_from_def)

lemma length_ffill_from: "length (ffill_from p rs) = length rs"
  by (induction rs arbitrary: p) auto

lemma ffill_from_nth_Suc:
  "Suc i < length rs \<Longrightarrow>
   ffill_from p rs ! Suc i = fill_from (ffill_from p rs ! i) (rs ! Suc i)"
proof (induction rs arbitrary: p i)
  case Nil
  then show ?case by simp
next
  case (Cons r rs)
  show ?case
  proof (cases i)
    case 0
    with Cons.prems obtain r' rs' where "rs = r' # rs'"
      by (cases rs) auto
    with 0 show ?thesis by simp
  next
    case (Suc j)
    with Cons.prems have "Suc j < length rs" by simp
    from Cons.IH [OF this] Suc show ?thesis by simp
  qed
qed

lemma ffill_from_nth_date:
  "i < length rs \<Longrightarrow> date (ffill_from p rs ! i) = date (rs ! i)"
proof (induction rs arbitrary: p i)
  case Nil
  then show ?case by simp
next
  case (Cons r rs)
  then show ?case
    by (cases i) (auto simp: fill_from_date)
qed

lemma ohlc_bin_date: "date (ohlc_bin srt b) = b"
  by (simp add: ohlc_bin_def split: list.splits)

lemma ohlc_bin_empty:
  assumes "\<forall>e \<in> set srt. bucket (timestamp e) \<noteq> b"
  shows "ohlc_bin srt b = \<lparr>date = b, c_open = None, c_high = None, c_low = None,
            c_close = None, c_volume = None\<rparr>"
proof -
  from assms have "filter (\<lambda>e. bucket (timestamp e) = b) srt = []"
    by (simp add: filter_empty_conv)
  then show ?thesis by (simp add: ohlc_bin_def)
qed

lemma volume_bin_empty:
  assumes "\<forall>e \<in> set srt. bucket (timestamp e) \<noteq> b"
  shows "volume_bin srt b = 0"
proof -
  from assms have "filter (\<lambda>e. bucket (timestamp e) = b) srt = []"
    by (simp add: filter_empty_conv)
  then show ?thesis by (simp add: volume_bin_def)
qed

lemma agg_bin_date: "date (agg_bin srt b) = b"
  by (simp add: agg_bin_def)

lemma agg_bin_empty:
  assumes "\<forall>r \<in> set srt. bucket (date r) \<noteq> b"
  shows "agg_bin srt b = \<lparr>date = b, c_open = None, c_high = None, c_low = None,
            c_close = None, c_volume = Some 0\<rparr>"
proof -
  from assms have "filter (\<lambda>r. bucket (date r) = b) srt = []"
    by (simp add: filter_empty_conv)
  then show ?thesis
    by (simp add: agg_bin_def first_valid_def last_valid_def max_valid_def min_valid_def
        sum_valid_def present_def map_filter_simps)
qed

text \<open>The forward fill of a frame whose rows are made bin by bin.\<close>

lemma ffill_empty_bin:
  assumes i: "Suc i < length bins"
    and row: "f (bins ! Suc i) = \<lparr>date = bins ! Suc i, c_open = None, c_high = None,
        c_low = None, c_close = None, c_volume = v\<rparr>"
  shows "c_open (ffill (map f bins) ! Suc i) = c_open (ffill (map f bins) ! i)
       \<and> c_high (ffill (map f bins) ! Suc i) = c_high (ffill (map f bins) ! i)
       \<and> c_low (ffill (map f bins) ! Suc i) = c_low (ffill (map f bins) ! i)
       \<and> c_close (ffill (map f bins) ! Suc i) = c_close (ffill (map f bins) ! i)
       \<and> (v \<noteq> None \<longrightarrow> c_volume (ffill (map f bins) ! Suc i) = v)"
proof -
  from i have "ffill (map f bins) ! Suc i
      = fill_from (ffill (map f bins) ! i) (f (bins ! Suc i))"
    by (simp add: ffill_def ffill_from_nth_Suc)
  with row show ?thesis
    by (auto simp: fill_from_def)
qed

lemma ffill_date:
  assumes "i < length bins" and "\<And>b. date (f b) = b"
  shows "date (ffill (map f bins) ! i) = bins ! i"
  using assms by (simp add: ffill_def ffill_from_nth_date)

lemmas frame_simps =
  resample_ohlcv_def resampled_frame_def resample_bins_def hour_ms_def bucket_def ffill_def
  no_row_def fill_from_def ohlc_bin_def volume_bin_def Let_def merge_def own_frame_def
  in_datetime_range_def ms_bound_def
  resample_agg_def agg_bin_def first_valid_def last_valid_def max_valid_def min_valid_def
  sum_valid_def present_def map_filter_simps upt_conv_Cons

lemma resample_empty_bucket:
  fixes s :: "('f :: {zero, plus, linorder}, 'v) BudaMarketTradeList"
  assumes r: "resample_ohlcv s = Inr s'"
    and l: "trade_list s = RawList l"
    and cs: "trade_list s' = DataFrame cs"
    and i: "Suc i < length cs"
    and none: "\<forall>e \<in> set l. bucket (timestamp e) \<noteq> date (cs ! Suc i)"
  shows "carried (cs ! i) (cs ! Suc i)"
proof -
  define srt where "srt = sort_key timestamp l"
  define bins where "bins = resample_bins (map timestamp srt)"
  define filled where "filled = ffill (map (ohlc_bin srt) bins)"
  from r l cs have cs_eq:
    "cs = map (\<lambda>r. r\<lparr>c_volume := Some (volume_bin srt (date r))\<rparr>) filled"
    by (auto simp: resample_ohlcv_def resampled_frame_def Let_def srt_def bins_def filled_def
        split: sum.splits if_splits)
  have len: "length filled = length bins"
    by (simp add: filled_def ffill_def length_ffill_from)
  with i cs_eq have ib: "Suc i < length bins" by simp
  then have d: "date (filled ! Suc i) = bins ! Suc i"
    unfolding filled_def by (intro ffill_date) (simp_all add: ohlc_bin_date)
  from ib len cs_eq have nth: "cs ! Suc i
      = (filled ! Suc i)\<lparr>c_volume := Some (volume_bin srt (date (filled ! Suc i)))\<rparr>"
    and nth0: "cs ! i = (filled ! i)\<lparr>c_volume := Some (volume_bin srt (date (filled ! i)))\<rparr>"
    by simp_all
  from nth d have "date (cs ! Suc i) = bins ! Suc i" by simp
  with none have e: "\<forall>e \<in> set srt. bucket (timestamp e) \<noteq> bins ! Suc i"
    by (simp add: srt_def)
  from ffill_empty_bin [where f = "ohlc_bin srt", OF ib ohlc_bin_empty [OF e]]
  have "c_open (filled ! Suc i) = c_open (filled ! i)
       \<and> c_high (filled ! Suc i) = c_high (filled ! i)
       \<and> c_low (filled ! Suc i) = c_low (filled ! i)
       \<and> c_close (filled ! Suc i) = c_close (filled ! i)"
    by (simp add: filled_def)
  with nth nth0 d volume_bin_empty [OF e] show ?thesis
    by (simp add: carried_def)
qed

lemma merge_empty_bucket:
  fixes s :: "('f :: {zero, plus, linorder}, 'v) BudaMarketTradeList"
  assumes m: "merge s other = Inr s'"
    and d1: "own_frame s = Inr d1"
    and d2: "trade_list other = DataFrame d2"
    and cs: "trade_list s' = DataFrame cs"
    and i: "Suc i < length cs"
    and none: "\<forall>r \<in> set (d1 @ d2). bucket (date r) \<noteq> date (cs ! Suc i)"
  shows "carried (cs ! i) (cs ! Suc i)"
proof -
  define srt where "srt = sort_key date (d1 @ d2)"
  define bins where "bins = resample_bins (map date srt)"
  from m d1 d2 cs have cs_eq: "cs = ffill (map (agg_bin srt) bins)"
    by (auto simp: merge_def resample_agg_def srt_def bins_def)
  with i have ib: "Suc i < length bins"
    by (simp add: ffill_def length_ffill_from)
  then have "date (cs ! Suc i) = bins ! Suc i"
    unfolding cs_eq by (intro ffill_date) (simp_all add: agg_bin_date)
  with none have e: "\<forall>r \<in> set srt. bucket (date r) \<noteq> bins ! Suc i"
    by (simp add: srt_def)
  from ffill_empty_bin [where f = "agg_bin srt", OF ib agg_bin_empty [OF e]] show ?thesis
    by (simp add: carried_def cs_eq)
qed

text \<open>
  C5, as the code has it. In the frame that \<open>resample_ohlcv\<close> leaves, a bucket after the
  first one that holds no trade repeats the bucket before it column by column: its open
  is the open before, its high the high before, its low the low before, its close the
  close before, and its volume is 0. In the frame that \<open>merge\<close> leaves, the same holds for
  a bucket after the first one that holds no row of the two merged frames.
\<close>

theorem empty_bucket_carries_columns:
  fixes s :: "('f :: {zero, plus, linorder}, 'v) BudaMarketTradeList"
  shows "(resample_ohlcv s = Inr s' \<and> trade_list s = RawList l
            \<and> trade_list s' = DataFrame cs \<and> Suc i < length cs
            \<and> (\<forall>e \<in> set l. bucket (timestamp e) \<noteq> date (cs ! Suc i))
          \<longrightarrow> carried (cs ! i) (cs ! Suc i))
       \<and> (merge s other = Inr s' \<and> own_frame s = Inr d1 \<and> trade_list other = DataFrame d2
            \<and> trade_list s' = DataFrame cs \<and> Suc i < length cs
            \<and> (\<forall>r \<in> set (d1 @ d2). bucket (date r) \<noteq> date (cs ! Suc i))
          \<longrightarrow> carried (cs ! i) (cs ! Suc i))"
  using resample_empty_bucket [of s s' l cs i] merge_empty_bucket [of s other s' d1 d2 cs i]
  by blast

theorem empty_bucket_carries_columns_witness:
  "carried
     (\<lparr>date = 0, c_open = Some 100, c_high = Some 105, c_low = Some 100,
        c_close = Some 105, c_volume = Some (3::real)\<rparr>)
     (\<lparr>date = 3600000, c_open = Some 100, c_high = Some 105, c_low = Some 100,
        c_close = Some 105, c_volume = Some 0\<rparr>)
   \<and> merge
     (\<lparr>trade_list = DataFrame
         [\<lparr>date = 0, c_open = Some 100, c_high = Some 105, c_low = Some 100,
            c_close = Some 105, c_volume = Some 3\<rparr>],
       filter_timestamp = None\<rparr> :: (real, string) BudaMarketTradeList)
     \<lparr>trade_list = DataFrame
         [\<lparr>date = 7200000, c_open = Some 110, c_high = Some 110, c_low = Some 110,
            c_close = Some 110, c_volume = Some 1\<rparr>],
       filter_timestamp = None\<rparr>
   = Inr \<lparr>trade_list = DataFrame
         [\<lparr>date = 0, c_open = Some 100, c_high = Some 105, c_low = Some 100,
            c_close = Some 105, c_volume = Some 3\<rparr>,
          \<lparr>date = 3600000, c_open = Some 100, c_high = Some 105, c_low = Some 100,
            c_close = Some 105, c_volume = Some 0\<rparr>,
          \<lparr>date = 7200000, c_open = Some 110, c_high = Some 110, c_low = Some 110,
            c_close = Some 110, c_volume = Some 1\<rparr>],
       filter_timestamp = None\<rparr>"
  using empty_bucket_carries_columns [of
     "\<lparr>trade_list = RawList
         [\<lparr>timestamp = 0, amount = 1, price = 100, direction = ''buy''\<rparr>,
          \<lparr>timestamp = 1000, amount = 2, price = 105, direction = ''sell''\<rparr>,
          \<lparr>timestamp = 7200000, amount = 1, price = 110, direction = ''buy''\<rparr>],
       filter_timestamp = None\<rparr> :: (real, string) BudaMarketTradeList"
     "\<lparr>trade_list = DataFrame
         [\<lparr>date = 0, c_open = Some 100, c_high = Some 105, c_low = Some 100,
            c_close = Some 105, c_volume = Some 3\<rparr>,
          \<lparr>date = 3600000, c_open = Some 100, c_high = Some 105, c_low = Some 100,
            c_close = Some 105, c_volume = Some 0\<rparr>,
          \<lparr>date = 7200000, c_open = Some 110, c_high = Some 110, c_low = Some 110,
            c_close = Some 110, c_volume = Some 1\<rparr>],
       filter_timestamp = None\<rparr>"
     "[\<lparr>timestamp = 0, amount = 1, price = 100, direction = ''buy''\<rparr>,
          \<lparr>timestamp = 1000, amount = 2, price = 105, direction = ''sell''\<rparr>,
          \<lparr>timestamp = 7200000, amount = 1, price = 110, direction = ''buy''\<rparr>]"
     "[\<lparr>date = 0, c_open = Some 100, c_high = Some 105, c_low = Some 100,
            c_close = Some 105, c_volume = Some 3\<rparr>,
          \<lparr>date = 3600000, c_open = Some 100, c_high = Some 105, c_low = Some 100,
            c_close = Some 105, c_volume = Some 0\<rparr>,
          \<lparr>date = 7200000, c_open = Some 110, c_high = Some 110, c_low = Some 110,
            c_close = Some 110, c_volume = Some 1\<rparr>]"
     0]
   empty_bucket_carries_columns [of
     "\<lparr>trade_list = DataFrame
         [\<lparr>date = 0, c_open = Some 100, c_high = Some 105, c_low = Some 100,
            c_close = Some 105, c_volume = Some 3\<rparr>],
       filter_timestamp = None\<rparr> :: (real, string) BudaMarketTradeList"
     "\<lparr>trade_list = DataFrame
         [\<lparr>date = 0, c_open = Some 100, c_high = Some 105, c_low = Some 100,
            c_close = Some 105, c_volume = Some 3\<rparr>,
          \<lparr>date = 3600000, c_open = Some 100, c_high = Some 105, c_low = Some 100,
            c_close = Some 105, c_volume = Some 0\<rparr>,
          \<lparr>date = 7200000, c_open = Some 110, c_high = Some 110, c_low = Some 110,
            c_close = Some 110, c_volume = Some 1\<rparr>],
       filter_timestamp = None\<rparr>"
     "[]"
     "[\<lparr>date = 0, c_open = Some 100, c_high = Some 105, c_low = Some 100,
            c_close = Some 105, c_volume = Some 3\<rparr>,
          \<lparr>date = 3600000, c_open = Some 100, c_high = Some 105, c_low = Some 100,
            c_close = Some 105, c_volume = Some 0\<rparr>,
          \<lparr>date = 7200000, c_open = Some 110, c_high = Some 110, c_low = Some 110,
            c_close = Some 110, c_volume = Some 1\<rparr>]"
     0
     "\<lparr>trade_list = DataFrame
         [\<lparr>date = 7200000, c_open = Some 110, c_high = Some 110, c_low = Some 110,
            c_close = Some 110, c_volume = Some 1\<rparr>],
       filter_timestamp = None\<rparr>"
     "[\<lparr>date = 0, c_open = Some 100, c_high = Some 105, c_low = Some 100,
            c_close = Some 105, c_volume = Some 3\<rparr>]"
     "[\<lparr>date = 7200000, c_open = Some 110, c_high = Some 110, c_low = Some 110,
            c_close = Some 110, c_volume = Some 1\<rparr>]"]
  by (simp add: frame_simps)

text \<open>
  C5 as stated fails: the bucket at 3600000 holds no trade, the close before it is 105,
  and its open is 100 and its low is 100, the open and the low of the bucket before.
\<close>

theorem empty_bucket_open_counterexample:
  "resample_ohlcv
     (\<lparr>trade_list = RawList
         [\<lparr>timestamp = 0, amount = 1, price = 100, direction = ''buy''\<rparr>,
          \<lparr>timestamp = 1000, amount = 2, price = 105, direction = ''sell''\<rparr>,
          \<lparr>timestamp = 7200000, amount = 1, price = 110, direction = ''buy''\<rparr>],
       filter_timestamp = None\<rparr> :: (real, string) BudaMarketTradeList)
   = Inr \<lparr>trade_list = DataFrame
         [\<lparr>date = 0, c_open = Some 100, c_high = Some 105, c_low = Some 100,
            c_close = Some 105, c_volume = Some 3\<rparr>,
          \<lparr>date = 3600000, c_open = Some 100, c_high = Some 105, c_low = Some 100,
            c_close = Some 105, c_volume = Some 0\<rparr>,
          \<lparr>date = 7200000, c_open = Some 110, c_high = Some 110, c_low = Some 110,
            c_close = Some 110, c_volume = Some 1\<rparr>],
       filter_timestamp = None\<rparr>"
  by (simp add: frame_simps)

lemma sorted_le_last: "sorted xs \<Longrightarrow> x \<in> set xs \<Longrightarrow> x \<le> last xs"
proof (induction xs)
  case Nil
  then show ?case by simp
next
  case (Cons y ys)
  show ?case
  proof (cases "ys = []")
    case True
    with Cons.prems show ?thesis by simp
  next
    case False
    then have ly: "last ys \<in> set ys" by simp
    from Cons.prems have s: "sorted ys" and le: "\<forall>z \<in> set ys. y \<le> z" by simp_all
    show ?thesis
    proof (cases "x = y")
      case True
      with le ly False show ?thesis by simp
    next
      case False
      with Cons.prems have "x \<in> set ys" by simp
      from Cons.IH [OF s this] \<open>ys \<noteq> []\<close> show ?thesis by simp
    qed
  qed
qed

lemma bucket_in_resample_bins:
  assumes s: "sorted ts" and t: "t \<in> set ts"
  shows "bucket t \<in> set (resample_bins ts)"
proof -
  from t obtain t0 rest where ts: "ts = t0 # rest"
    by (cases ts) auto
  from s t ts have lo: "t0 \<le> t" by auto
  from s t have hi: "t \<le> last ts" by (rule sorted_le_last)
  from lo have dlo: "t0 div hour_ms \<le> t div hour_ms"
    by (rule zdiv_mono1) (rule hour_ms_pos)
  from hi have dhi: "t div hour_ms \<le> last ts div hour_ms"
    by (rule zdiv_mono1) (rule hour_ms_pos)
  define k where "k = nat (t div hour_ms - t0 div hour_ms)"
  from dlo dhi have klt: "k < Suc (nat (last ts div hour_ms - t0 div hour_ms))"
    by (simp add: k_def)
  from dlo have "bucket t = (t0 div hour_ms + int k) * hour_ms"
    by (simp add: bucket_def k_def)
  with klt have "bucket t \<in> (\<lambda>k. (t0 div hour_ms + int k) * hour_ms)
      ` {0 ..< Suc (nat (last ts div hour_ms - t0 div hour_ms))}"
    by (intro image_eqI [where x = k]) simp_all
  moreover have "resample_bins ts
      = map (\<lambda>k. (t0 div hour_ms + int k) * hour_ms)
          [0 ..< Suc (nat (last ts div hour_ms - t0 div hour_ms))]"
    by (simp add: resample_bins_def ts)
  ultimately show ?thesis
    by (simp only: set_map set_upt)
qed

lemma find_map_bins:
  assumes "b \<in> set bins" and "\<And>y. date (f y) = y"
  shows "List.find (\<lambda>r. date r = b) (map f bins) = Some (f b)"
  using assms by (induction bins) auto

lemma find_ffill_from:
  assumes "List.find (\<lambda>r. date r = b) rs = Some r"
    and "c_open r \<noteq> None" "c_high r \<noteq> None" "c_low r \<noteq> None" "c_close r \<noteq> None"
      "c_volume r \<noteq> None"
  shows "List.find (\<lambda>r. date r = b) (ffill_from p rs) = Some r"
  using assms
proof (induction rs arbitrary: p)
  case Nil
  then show ?case by simp
next
  case (Cons x xs)
  show ?case
  proof (cases "date x = b")
    case True
    with Cons.prems have "x = r" by simp
    with Cons.prems True have "fill_from p x = r"
      by (auto simp: fill_from_def)
    with True \<open>x = r\<close> show ?thesis by simp
  next
    case False
    with Cons.prems have "List.find (\<lambda>r. date r = b) xs = Some r" by simp
    from Cons.IH [OF this Cons.prems(2-6)] False show ?thesis
      by (simp add: fill_from_date)
  qed
qed

lemma sort_key_pair: "f x \<le> f y \<Longrightarrow> sort_key f [x, y] = [x, y]"
  by simp

text \<open>
  C1, as the code has it. \<open>merge\<close> appends the rows of the other frame to its own and
  aggregates the candles, not the trades behind them. For a bucket that has one candle in
  each frame, with all five values present and its own candle not later than the other
  one, the merged frame has at that bucket the candle whose volume is the sum of the two
  volumes, added from 0, whose open is the open of its own candle, whose close is the
  close of the other candle, whose high is the larger high and whose low is the smaller
  low.
\<close>

theorem merge_overlapping_bucket:
  fixes s :: "('f :: {zero, plus, linorder}, 'v) BudaMarketTradeList"
  assumes own: "own_frame s = Inr A"
    and other: "trade_list other = DataFrame B"
    and ra: "filter (\<lambda>r. bucket (date r) = b) A
        = [\<lparr>date = ta, c_open = Some oa, c_high = Some ha, c_low = Some la,
             c_close = Some ca, c_volume = Some va\<rparr>]"
    and rb: "filter (\<lambda>r. bucket (date r) = b) B
        = [\<lparr>date = tb, c_open = Some ob, c_high = Some hb, c_low = Some lb,
             c_close = Some cb, c_volume = Some vb\<rparr>]"
    and le: "ta \<le> tb"
  shows "\<exists>cs. merge s other = Inr (s\<lparr>trade_list := DataFrame cs\<rparr>)
      \<and> List.find (\<lambda>r. date r = b) cs
          = Some \<lparr>date = b, c_open = Some oa, c_high = Some (max ha hb),
                  c_low = Some (min la lb), c_close = Some cb,
                  c_volume = Some (0 + va + vb)\<rparr>"
proof -
  let ?ra = "\<lparr>date = ta, c_open = Some oa, c_high = Some ha, c_low = Some la,
             c_close = Some ca, c_volume = Some va\<rparr>"
  let ?rb = "\<lparr>date = tb, c_open = Some ob, c_high = Some hb, c_low = Some lb,
             c_close = Some cb, c_volume = Some vb\<rparr>"
  let ?row = "\<lparr>date = b, c_open = Some oa, c_high = Some (max ha hb),
                  c_low = Some (min la lb), c_close = Some cb,
                  c_volume = Some (0 + va + vb)\<rparr>"
  define srt where "srt = sort_key date (A @ B)"
  define bins where "bins = resample_bins (map date srt)"
  from ra rb have "filter (\<lambda>r. bucket (date r) = b) (A @ B) = [?ra, ?rb]"
    by simp
  then have "filter (\<lambda>r. bucket (date r) = b) srt = sort_key date [?ra, ?rb]"
    by (simp add: srt_def filter_sort)
  with le have grp: "filter (\<lambda>r. bucket (date r) = b) srt = [?ra, ?rb]"
    by simp
  then have row: "agg_bin srt b = ?row"
    by (simp add: agg_bin_def first_valid_def last_valid_def max_valid_def min_valid_def
        sum_valid_def present_def map_filter_simps)
  from ra have "?ra \<in> set (filter (\<lambda>r. bucket (date r) = b) A)"
    by simp
  then have mem: "?ra \<in> set srt" and bk: "bucket ta = b"
    by (simp_all add: srt_def)
  from mem have "date ?ra \<in> date ` set srt"
    by (rule imageI)
  then have "ta \<in> set (map date srt)" by simp
  with bucket_in_resample_bins [of "map date srt" ta] bk
  have "b \<in> set bins"
    by (simp add: bins_def srt_def sorted_sort_key)
  then have "List.find (\<lambda>r. date r = b) (map (agg_bin srt) bins) = Some (agg_bin srt b)"
    by (rule find_map_bins) (rule agg_bin_date)
  with row have "List.find (\<lambda>r. date r = b) (map (agg_bin srt) bins) = Some ?row"
    by simp
  then have "List.find (\<lambda>r. date r = b) (ffill (map (agg_bin srt) bins)) = Some ?row"
    unfolding ffill_def by (rule find_ffill_from) simp_all
  moreover from own other
  have "merge s other = Inr (s\<lparr>trade_list := DataFrame (ffill (map (agg_bin srt) bins))\<rparr>)"
    by (simp add: merge_def resample_agg_def srt_def bins_def)
  ultimately show ?thesis by blast
qed

theorem merge_overlapping_bucket_witness:
  "merge
     (\<lparr>trade_list = DataFrame
         [\<lparr>date = 0, c_open = Some 105, c_high = Some 105, c_low = Some 105,
            c_close = Some 105, c_volume = Some 2\<rparr>],
       filter_timestamp = None\<rparr> :: (real, string) BudaMarketTradeList)
     \<lparr>trade_list = DataFrame
         [\<lparr>date = 0, c_open = Some 100, c_high = Some 100, c_low = Some 100,
            c_close = Some 100, c_volume = Some 1\<rparr>],
       filter_timestamp = None\<rparr>
   = Inr \<lparr>trade_list = DataFrame
         [\<lparr>date = 0, c_open = Some 105, c_high = Some 105, c_low = Some 100,
            c_close = Some 100, c_volume = Some 3\<rparr>],
       filter_timestamp = None\<rparr>"
  using merge_overlapping_bucket [of
     "\<lparr>trade_list = DataFrame
         [\<lparr>date = 0, c_open = Some 105, c_high = Some 105, c_low = Some 105,
            c_close = Some 105, c_volume = Some 2\<rparr>],
       filter_timestamp = None\<rparr> :: (real, string) BudaMarketTradeList"
     "[\<lparr>date = 0, c_open = Some 105, c_high = Some 105, c_low = Some 105,
            c_close = Some 105, c_volume = Some 2\<rparr>]"
     "\<lparr>trade_list = DataFrame
         [\<lparr>date = 0, c_open = Some 100, c_high = Some 100, c_low = Some 100,
            c_close = Some 100, c_volume = Some 1\<rparr>],
       filter_timestamp = None\<rparr>"
     "[\<lparr>date = 0, c_open = Some 100, c_high = Some 100, c_low = Some 100,
            c_close = Some 100, c_volume = Some 1\<rparr>]"
     0 0 105 105 105 105 2 0 100 100 100 100 1]
  by (simp add: frame_simps)

text \<open>
  C1 as stated fails. The series of the trade at 1000 ms (price 105, amount 2) is merged
  with the series of the trade at 0 ms (price 100, amount 1): the merged bucket opens at
  105 and closes at 100, where the trades in time order open at 100 and close at 105.
  Merged with itself, the first series has the volume 4 for a single trade of amount 2.
\<close>

theorem merge_double_counts_counterexample:
  "resample_ohlcv
     (\<lparr>trade_list = RawList
         [\<lparr>timestamp = 1000, amount = 2, price = 105, direction = ''sell''\<rparr>],
       filter_timestamp = None\<rparr> :: (real, string) BudaMarketTradeList)
   = Inr \<lparr>trade_list = DataFrame
         [\<lparr>date = 0, c_open = Some 105, c_high = Some 105, c_low = Some 105,
            c_close = Some 105, c_volume = Some 2\<rparr>],
       filter_timestamp = None\<rparr>
   \<and> resample_ohlcv
     (\<lparr>trade_list = RawList
         [\<lparr>timestamp = 0, amount = 1, price = 100, direction = ''buy''\<rparr>],
       filter_timestamp = None\<rparr> :: (real, string) BudaMarketTradeList)
   = Inr \<lparr>trade_list = DataFrame
         [\<lparr>date = 0, c_open = Some 100, c_high = Some 100, c_low = Some 100,
            c_close = Some 100, c_volume = Some 1\<rparr>],
       filter_timestamp = None\<rparr>
   \<and> merge
     (\<lparr>trade_list = DataFrame
         [\<lparr>date = 0, c_open = Some 105, c_high = Some 105, c_low = Some 105,
            c_close = Some 105, c_volume = Some 2\<rparr>],
       filter_timestamp = None\<rparr> :: (real, string) BudaMarketTradeList)
     \<lparr>trade_list = DataFrame
         [\<lparr>date = 0, c_open = Some 100, c_high = Some 100, c_low = Some 100,
            c_close = Some 100, c_volume = Some 1\<rparr>],
       filter_timestamp = None\<rparr>
   = Inr \<lparr>trade_list = DataFrame
         [\<lparr>date = 0, c_open = Some 105, c_high = Some 105, c_low = Some 100,
            c_close = Some 100, c_volume = Some 3\<rparr>],
       filter_timestamp = None\<rparr>
   \<and> resample_ohlcv
     (\<lparr>trade_list = RawList
         [\<lparr>timestamp = 1000, amount = 2, price = 105, direction = ''sell''\<rparr>,
          \<lparr>timestamp = 0, amount = 1, price = 100, direction = ''buy''\<rparr>],
       filter_timestamp = None\<rparr> :: (real, string) BudaMarketTradeList)
   = Inr \<lparr>trade_list = DataFrame
         [\<lparr>date = 0, c_open = Some 100, c_high = Some 105, c_low = Some 100,
            c_close = Some 105, c_volume = Some 3\<rparr>],
       filter_timestamp = None\<rparr>
   \<and> merge
     (\<lparr>trade_list = DataFrame
         [\<lparr>date = 0, c_open = Some 105, c_high = Some 105, c_low = Some 105,
            c_close = Some 105, c_volume = Some 2\<rparr>],
       filter_timestamp = None\<rparr> :: (real, string) BudaMarketTradeList)
     \<lparr>trade_list = DataFrame
         [\<lparr>date = 0, c_open = Some 105, c_high = Some 105, c_low = Some 105,
            c_close = Some 105, c_volume = Some 2\<rparr>],
       filter_timestamp = None\<rparr>
   = Inr \<lparr>trade_list = DataFrame
         [\<lparr>date = 0, c_open = Some 105, c_high = Some 105, c_low = Some 105,
            c_close = Some 105, c_volume = Some 4\<rparr>],
       filter_timestamp = None\<rparr>"
  by (simp add: frame_simps)

end
